theory Spec2Isabelle
  imports Main "HOL-Library.Word" "HOL-Library.Sublist"
begin

section \<open>Text\<close>

text \<open>
  A script string is a sequence of 16-bit code units.  Literals of the script that are
  plain ASCII are written through \<open>utf16\<close>; the one literal with a character outside
  ASCII (the dash of the "thinking" status, U+2014) is spelled out by its code unit.
\<close>

type_synonym jstring = "16 word list"

definition utf16 :: "string \<Rightarrow> jstring" where
  "utf16 s = map of_char s"

text \<open>
  \<open>String.prototype.trim\<close> strips the white space and line terminator code units
  from both ends.
\<close>

definition is_js_space :: "16 word \<Rightarrow> bool" where
  "is_js_space c =
     (c = 0x09 \<or> c = 0x0A \<or> c = 0x0B \<or> c = 0x0C \<or> c = 0x0D \<or> c = 0x20 \<or> c = 0xA0
      \<or> c = 0x1680 \<or> (0x2000 \<le> c \<and> c \<le> 0x200A) \<or> c = 0x2028 \<or> c = 0x2029
      \<or> c = 0x202F \<or> c = 0x205F \<or> c = 0x3000 \<or> c = 0xFEFF)"

definition trim :: "jstring \<Rightarrow> jstring" where
  "trim s = rev (dropWhile is_js_space (rev (dropWhile is_js_space s)))"

section \<open>The page\<close>

text \<open>
  The elements the script looks up once the document has loaded, reduced to the
  properties it reads or writes: the value of \<open>cmd-input\<close>, the text and inline colour
  of \<open>reply\<close>, the \<open>disabled\<close> flag of \<open>send-btn\<close>, the class lists of the body and of
  \<open>hero\<close>, and the calls of \<open>fetch\<close> issued so far.  Console output is diagnostic only
  and is left out.
\<close>

record request =
  url :: jstring
  http_method :: jstring
  headers :: "(jstring \<times> jstring) list"
  payload :: "jstring option"

record page =
  input_value :: jstring
  reply_text :: jstring
  reply_color :: jstring
  send_disabled :: bool
  body_classes :: "jstring list"
  hero_classes :: "jstring list"
  fetches :: "request list"

definition light :: jstring where
  "light = utf16 ''light''"

definition error_color :: jstring where
  "error_color = utf16 ''#ff8a8a''"

definition light_accent :: jstring where
  "light_accent = utf16 ''#035b9d''"

definition dark_accent :: jstring where
  "dark_accent = utf16 ''#8fffe0''"

text \<open>\<open>classList.contains\<close> and \<open>classList.toggle\<close> on an ordered token set.\<close>

definition class_contains :: "jstring list \<Rightarrow> jstring \<Rightarrow> bool" where
  "class_contains cs t = (t \<in> set cs)"

definition class_toggle :: "jstring list \<Rightarrow> jstring \<Rightarrow> jstring list" where
  "class_toggle cs t = (if t \<in> set cs then removeAll t cs else cs @ [t])"

definition accent :: "page \<Rightarrow> jstring" where
  "accent s = (if class_contains (body_classes s) light then light_accent else dark_accent)"

text \<open>\<open>showReply(text, isError)\<close>, for a text that is already a string.\<close>

definition showReply :: "jstring \<Rightarrow> bool \<Rightarrow> page \<Rightarrow> page" where
  "showReply text isError s =
     s\<lparr>reply_text := text, reply_color := (if isError then error_color else accent s)\<rparr>"

text \<open>The \<open>change\<close> listener of \<open>theme-toggle\<close>.\<close>

definition toggle_theme :: "page \<Rightarrow> page" where
  "toggle_theme s =
     (let s1 = s\<lparr>body_classes := class_toggle (body_classes s) light\<rparr>;
          s2 = s1\<lparr>hero_classes := class_toggle (hero_classes s1) light\<rparr>
      in s2\<lparr>reply_color := accent s2\<rparr>)"

section \<open>Script values\<close>

text \<open>
  The values the script handles come out of \<open>JSON.parse\<close>, or are strings.  A number
  keeps the literal it was written with: what the literal denotes as a double, and how
  that double prints, is the host's floating point arithmetic (see \<open>host\<close> below).  An
  object keeps its members in source order, duplicates included; a lookup takes the last.
\<close>

datatype json =
    JNull
  | JBool bool
  | JNum jstring
  | JStr jstring
  | JArr "json list"
  | JObj "(jstring \<times> json) list"

datatype js_error = JsError (err_name: jstring) (err_message: jstring)

datatype 'a settled = Fulfilled 'a | Rejected js_error

text \<open>
  What the script leaves to the engine it runs on: the truth value and the decimal text
  of the number a JSON number literal denotes, and the wording of the messages of the
  engine's own exceptions (their names are fixed by the language).
\<close>

record host =
  number_truthy :: "jstring \<Rightarrow> bool"
  number_text :: "jstring \<Rightarrow> jstring"
  syntax_message :: "jstring \<Rightarrow> jstring"
  null_member_message :: "jstring \<Rightarrow> jstring"
  to_primitive_message :: jstring

subsection \<open>JSON.parse\<close>

datatype token =
    TLBrace | TRBrace | TLBracket | TRBracket | TColon | TComma
  | TString jstring | TNumber jstring | TTrue | TFalse | TNull

definition is_json_space :: "16 word \<Rightarrow> bool" where
  "is_json_space c = (c = 0x09 \<or> c = 0x0A \<or> c = 0x0D \<or> c = 0x20)"

definition is_digit :: "16 word \<Rightarrow> bool" where
  "is_digit c = (0x30 \<le> c \<and> c \<le> 0x39)"

definition hex_value :: "16 word \<Rightarrow> 16 word option" where
  "hex_value c =
     (if 0x30 \<le> c \<and> c \<le> 0x39 then Some (c - 0x30)
      else if 0x41 \<le> c \<and> c \<le> 0x46 then Some (c - 0x37)
      else if 0x61 \<le> c \<and> c \<le> 0x66 then Some (c - 0x57)
      else None)"

definition hex4 :: "16 word \<Rightarrow> 16 word \<Rightarrow> 16 word \<Rightarrow> 16 word \<Rightarrow> 16 word option" where
  "hex4 a b c d =
     (case (hex_value a, hex_value b, hex_value c, hex_value d) of
        (Some x, Some y, Some z, Some w) \<Rightarrow> Some (((x * 16 + y) * 16 + z) * 16 + w)
      | _ \<Rightarrow> None)"

text \<open>The single-character escapes: quote, backslash, slash, b, f, n, r, t.\<close>

definition unescape :: "16 word \<Rightarrow> 16 word option" where
  "unescape e =
     (if e = 0x22 then Some 0x22
      else if e = 0x5C then Some 0x5C
      else if e = 0x2F then Some 0x2F
      else if e = 0x62 then Some 0x08
      else if e = 0x66 then Some 0x0C
      else if e = 0x6E then Some 0x0A
      else if e = 0x72 then Some 0x0D
      else if e = 0x74 then Some 0x09
      else None)"

text \<open>
  A number token is the longest run of digits, signs, points and exponent marks, and it
  must have the shape \<open>-? (0 | [1-9][0-9]*) (. [0-9]+)? ([eE] [+-]? [0-9]+)?\<close>.
\<close>

definition is_number_unit :: "16 word \<Rightarrow> bool" where
  "is_number_unit c = (is_digit c \<or> c = 0x2B \<or> c = 0x2D \<or> c = 0x2E \<or> c = 0x45 \<or> c = 0x65)"

definition exponent_ok :: "jstring \<Rightarrow> bool" where
  "exponent_ok r =
     (case r of
        [] \<Rightarrow> True
      | c # r1 \<Rightarrow>
          (c = 0x45 \<or> c = 0x65) \<and>
          (let ds = (case r1 of [] \<Rightarrow> [] | g # t \<Rightarrow> if g = 0x2B \<or> g = 0x2D then t else r1)
           in ds \<noteq> [] \<and> list_all is_digit ds))"

definition fraction_ok :: "jstring \<Rightarrow> bool" where
  "fraction_ok r =
     (case r of
        [] \<Rightarrow> True
      | c # r1 \<Rightarrow>
          if c = 0x2E then takeWhile is_digit r1 \<noteq> [] \<and> exponent_ok (dropWhile is_digit r1)
          else exponent_ok r)"

definition is_json_number :: "jstring \<Rightarrow> bool" where
  "is_json_number s =
     (case (case s of [] \<Rightarrow> [] | c # r \<Rightarrow> if c = 0x2D then r else s) of
        [] \<Rightarrow> False
      | d # r \<Rightarrow>
          if d = 0x30 then fraction_ok r
          else is_digit d \<and> fraction_ok (dropWhile is_digit r))"

text \<open>
  The lexer.  \<open>lex_string acc cs\<close> reads the inside of a string literal, the decoded
  units so far in \<open>acc\<close> (newest first), and goes on with the tokens after the closing
  quote.  A raw control character ends the parse, as does an unknown escape.
\<close>

function tokenize :: "jstring \<Rightarrow> token list option"
  and lex_string :: "jstring \<Rightarrow> jstring \<Rightarrow> token list option" where
  "tokenize [] = Some []"
| "tokenize (c # cs) =
     (if is_json_space c then tokenize cs
      else if c = 0x7B then map_option (Cons TLBrace) (tokenize cs)
      else if c = 0x7D then map_option (Cons TRBrace) (tokenize cs)
      else if c = 0x5B then map_option (Cons TLBracket) (tokenize cs)
      else if c = 0x5D then map_option (Cons TRBracket) (tokenize cs)
      else if c = 0x3A then map_option (Cons TColon) (tokenize cs)
      else if c = 0x2C then map_option (Cons TComma) (tokenize cs)
      else if c = 0x22 then lex_string [] cs
      else if c = 0x2D \<or> is_digit c then
        (if is_json_number (c # takeWhile is_number_unit cs)
         then map_option (Cons (TNumber (c # takeWhile is_number_unit cs)))
                (tokenize (dropWhile is_number_unit cs))
         else None)
      else if take 4 (c # cs) = utf16 ''true'' then map_option (Cons TTrue) (tokenize (drop 3 cs))
      else if take 5 (c # cs) = utf16 ''false'' then map_option (Cons TFalse) (tokenize (drop 4 cs))
      else if take 4 (c # cs) = utf16 ''null'' then map_option (Cons TNull) (tokenize (drop 3 cs))
      else None)"
| "lex_string acc [] = None"
| "lex_string acc (c # cs) =
     (if c = 0x22 then map_option (Cons (TString (rev acc))) (tokenize cs)
      else if c = 0x5C then
        (case cs of
           [] \<Rightarrow> None
         | e # cs1 \<Rightarrow>
             if e = 0x75 then
               (case cs1 of
                  h1 # h2 # h3 # h4 # cs2 \<Rightarrow>
                    (case hex4 h1 h2 h3 h4 of
                       None \<Rightarrow> None
                     | Some u \<Rightarrow> lex_string (u # acc) cs2)
                | _ \<Rightarrow> None)
             else
               (case unescape e of
                  None \<Rightarrow> None
                | Some u \<Rightarrow> lex_string (u # acc) cs1))
      else if c < 0x20 then None
      else lex_string (c # acc) cs)"
  by pat_completeness auto
termination
  by (relation "measure (\<lambda>x. case x of Inl cs \<Rightarrow> length cs | Inr (acc, cs) \<Rightarrow> length cs)")
     (auto simp: less_Suc_eq_le length_dropWhile_le)

text \<open>
  The parser is a pushdown automaton over the tokens.  A frame is an array or an object
  still open, with what it holds so far (newest first); an object frame also holds the
  key that waits for its value.
\<close>

datatype frame =
    ArrFrame "json list"
  | ObjFrame "(jstring \<times> json) list" "jstring option"

datatype phase =
    WantValue | WantValueOrClose | WantKeyOrClose | WantKey | WantColon | WantCommaOrClose
  | Finished json

fun put_value :: "json \<Rightarrow> frame list \<Rightarrow> (frame list \<times> phase) option" where
  "put_value v [] = Some ([], Finished v)"
| "put_value v (ArrFrame es # fs) = Some (ArrFrame (v # es) # fs, WantCommaOrClose)"
| "put_value v (ObjFrame ms (Some k) # fs) = Some (ObjFrame ((k, v) # ms) None # fs, WantCommaOrClose)"
| "put_value v (ObjFrame ms None # fs) = None"

fun close_array :: "frame list \<Rightarrow> (frame list \<times> phase) option" where
  "close_array (ArrFrame es # fs) = put_value (JArr (rev es)) fs"
| "close_array _ = None"

fun close_object :: "frame list \<Rightarrow> (frame list \<times> phase) option" where
  "close_object (ObjFrame ms None # fs) = put_value (JObj (rev ms)) fs"
| "close_object _ = None"

fun set_key :: "jstring \<Rightarrow> frame list \<Rightarrow> (frame list \<times> phase) option" where
  "set_key k (ObjFrame ms None # fs) = Some (ObjFrame ms (Some k) # fs, WantColon)"
| "set_key k _ = None"

fun open_value :: "token \<Rightarrow> frame list \<Rightarrow> (frame list \<times> phase) option" where
  "open_value TLBracket fs = Some (ArrFrame [] # fs, WantValueOrClose)"
| "open_value TLBrace fs = Some (ObjFrame [] None # fs, WantKeyOrClose)"
| "open_value (TString s) fs = put_value (JStr s) fs"
| "open_value (TNumber n) fs = put_value (JNum n) fs"
| "open_value TTrue fs = put_value (JBool True) fs"
| "open_value TFalse fs = put_value (JBool False) fs"
| "open_value TNull fs = put_value JNull fs"
| "open_value _ fs = None"

fun shift :: "token \<Rightarrow> frame list \<Rightarrow> phase \<Rightarrow> (frame list \<times> phase) option" where
  "shift t fs WantValue = open_value t fs"
| "shift t fs WantValueOrClose = (if t = TRBracket then close_array fs else open_value t fs)"
| "shift t fs WantKeyOrClose =
     (case t of TRBrace \<Rightarrow> close_object fs | TString k \<Rightarrow> set_key k fs | _ \<Rightarrow> None)"
| "shift t fs WantKey = (case t of TString k \<Rightarrow> set_key k fs | _ \<Rightarrow> None)"
| "shift t fs WantColon = (if t = TColon then Some (fs, WantValue) else None)"
| "shift t fs WantCommaOrClose =
     (case fs of
        ArrFrame es # _ \<Rightarrow>
          (case t of TComma \<Rightarrow> Some (fs, WantValue) | TRBracket \<Rightarrow> close_array fs | _ \<Rightarrow> None)
      | ObjFrame ms k # _ \<Rightarrow>
          (case t of TComma \<Rightarrow> Some (fs, WantKey) | TRBrace \<Rightarrow> close_object fs | _ \<Rightarrow> None)
      | [] \<Rightarrow> None)"
| "shift t fs (Finished v) = None"

fun run_tokens :: "token list \<Rightarrow> frame list \<Rightarrow> phase \<Rightarrow> json option" where
  "run_tokens [] fs ph = (case ph of Finished v \<Rightarrow> Some v | _ \<Rightarrow> None)"
| "run_tokens (t # ts) fs ph =
     (case shift t fs ph of None \<Rightarrow> None | Some (fs1, ph1) \<Rightarrow> run_tokens ts fs1 ph1)"

text \<open>\<open>JSON.parse(text)\<close>; \<open>None\<close> is the SyntaxError it throws.\<close>

definition JSON_parse :: "jstring \<Rightarrow> json option" where
  "JSON_parse text =
     (case tokenize text of None \<Rightarrow> None | Some ts \<Rightarrow> run_tokens ts [] WantValue)"

subsection \<open>JSON.stringify of the request body\<close>

text \<open>
  The quoting of a string: the short escapes, \<open>\u00xx\<close> for the other control
  characters and \<open>\udxxx\<close> for a surrogate without its partner, anything else as it is.
\<close>

definition hex_digit :: "nat \<Rightarrow> 16 word" where
  "hex_digit n = (if n < 10 then 0x30 + of_nat n else 0x57 + of_nat n)"

definition unicode_escape :: "16 word \<Rightarrow> jstring" where
  "unicode_escape c =
     [0x5C, 0x75, hex_digit (unat c div 4096), hex_digit (unat c div 256 mod 16),
      hex_digit (unat c div 16 mod 16), hex_digit (unat c mod 16)]"

definition is_lead :: "16 word \<Rightarrow> bool" where
  "is_lead c = (0xD800 \<le> c \<and> c \<le> 0xDBFF)"

definition is_trail :: "16 word \<Rightarrow> bool" where
  "is_trail c = (0xDC00 \<le> c \<and> c \<le> 0xDFFF)"

definition quote_unit :: "16 word \<Rightarrow> jstring" where
  "quote_unit c =
     (if c = 0x08 then [0x5C, 0x62]
      else if c = 0x09 then [0x5C, 0x74]
      else if c = 0x0A then [0x5C, 0x6E]
      else if c = 0x0C then [0x5C, 0x66]
      else if c = 0x0D then [0x5C, 0x72]
      else if c = 0x22 then [0x5C, 0x22]
      else if c = 0x5C then [0x5C, 0x5C]
      else if c < 0x20 \<or> is_lead c \<or> is_trail c then unicode_escape c
      else [c])"

fun quote_units :: "jstring \<Rightarrow> jstring" where
  "quote_units (c # d # cs) =
     (if is_lead c \<and> is_trail d then c # d # quote_units cs
      else quote_unit c @ quote_units (d # cs))"
| "quote_units [c] = quote_unit c"
| "quote_units [] = []"

text \<open>\<open>JSON.stringify({ command: cmd })\<close>.\<close>

definition stringify_command :: "jstring \<Rightarrow> jstring" where
  "stringify_command cmd =
     utf16 ''{\"command\":'' @ [0x22] @ quote_units cmd @ [0x22] @ utf16 ''}''"

subsection \<open>Member access, truth values, conversion to text\<close>

text \<open>
  Reading a member by name.  The script reads \<open>reply\<close> and \<open>status\<close> only, names that
  no prototype defines, so anything but an object with such a member of its own gives
  \<open>undefined\<close> (\<open>None\<close>).  Reading a member of \<open>null\<close> throws; \<open>?.\<close> gives
  \<open>undefined\<close> there instead.
\<close>

fun own_member :: "json \<Rightarrow> jstring \<Rightarrow> json option" where
  "own_member (JObj ms) k = map_of (rev ms) k"
| "own_member _ k = None"

definition type_error :: "jstring \<Rightarrow> js_error" where
  "type_error m = JsError (utf16 ''TypeError'') m"

definition syntax_error :: "jstring \<Rightarrow> js_error" where
  "syntax_error m = JsError (utf16 ''SyntaxError'') m"

definition member :: "host \<Rightarrow> json \<Rightarrow> jstring \<Rightarrow> js_error + json option" where
  "member h v k =
     (if v = JNull then Inl (type_error (null_member_message h k)) else Inr (own_member v k))"

definition optional_member :: "json \<Rightarrow> jstring \<Rightarrow> json option" where
  "optional_member v k = (if v = JNull then None else own_member v k)"

fun truthy :: "host \<Rightarrow> json option \<Rightarrow> bool" where
  "truthy h None = False"
| "truthy h (Some JNull) = False"
| "truthy h (Some (JBool b)) = b"
| "truthy h (Some (JNum n)) = number_truthy h n"
| "truthy h (Some (JStr t)) = (t \<noteq> [])"
| "truthy h (Some (JArr vs)) = True"
| "truthy h (Some (JObj ms)) = True"

text \<open>\<open>a || b\<close> and \<open>a ?? b\<close>.\<close>

definition or_else :: "host \<Rightarrow> json option \<Rightarrow> json option \<Rightarrow> json option" where
  "or_else h a b = (if truthy h a then a else b)"

definition nullish_else :: "json option \<Rightarrow> json option \<Rightarrow> json option" where
  "nullish_else a b = (if a = None \<or> a = Some JNull then b else a)"

text \<open>
  Conversion to a string.  An array joins the texts of its elements with commas, \<open>null\<close>
  elements as the empty text.  An object prints as \<open>[object Object]\<close> through the
  inherited \<open>toString\<close>; a member of its own named \<open>toString\<close> hides the inherited one
  and, being data, cannot be called, and then the conversion throws a TypeError.
\<close>

fun join_texts :: "(js_error + jstring) list \<Rightarrow> js_error + jstring" where
  "join_texts [] = Inr []"
| "join_texts [r] = r"
| "join_texts (r # rs) =
     (case r of
        Inl e \<Rightarrow> Inl e
      | Inr t \<Rightarrow> (case join_texts rs of Inl e \<Rightarrow> Inl e | Inr u \<Rightarrow> Inr (t @ [0x2C] @ u)))"

fun to_string :: "host \<Rightarrow> json \<Rightarrow> js_error + jstring" where
  "to_string h JNull = Inr (utf16 ''null'')"
| "to_string h (JBool b) = Inr (if b then utf16 ''true'' else utf16 ''false'')"
| "to_string h (JNum n) = Inr (number_text h n)"
| "to_string h (JStr t) = Inr t"
| "to_string h (JArr vs) =
     join_texts (map (\<lambda>v. if v = JNull then Inr [] else to_string h v) vs)"
| "to_string h (JObj ms) =
     (if map_of ms (utf16 ''toString'') = None then Inr (utf16 ''[object Object]'')
      else Inl (type_error (to_primitive_message h)))"

text \<open>A value inside a template literal or under \<open>+\<close> with a string.\<close>

definition text_of :: "host \<Rightarrow> json option \<Rightarrow> js_error + jstring" where
  "text_of h v = (case v of None \<Rightarrow> Inr (utf16 ''undefined'') | Some j \<Rightarrow> to_string h j)"

text \<open>
  A value assigned to \<open>textContent\<close>: \<open>null\<close> and \<open>undefined\<close> clear the text, anything
  else is converted to a string.  The assignment is the first statement of \<open>showReply\<close>, so
  a conversion that throws leaves the page as it was.
\<close>

definition text_content_of :: "host \<Rightarrow> json option \<Rightarrow> js_error + jstring" where
  "text_content_of h v =
     (case v of None \<Rightarrow> Inr [] | Some j \<Rightarrow> if j = JNull then Inr [] else to_string h j)"

text \<open>The decimal digits of a status code.\<close>

fun decimal :: "nat \<Rightarrow> jstring" where
  "decimal n = (if n < 10 then [0x30 + of_nat n] else decimal (n div 10) @ [0x30 + of_nat (n mod 10)])"

declare decimal.simps [simp del]

text \<open>
  \<open>err.message || err\<close> under \<open>+\<close> with a string: the message when it is not empty,
  else the error converted by \<open>Error.prototype.toString\<close>.
\<close>

definition error_to_string :: "js_error \<Rightarrow> jstring" where
  "error_to_string e =
     (if err_name e = [] then err_message e
      else if err_message e = [] then err_name e
      else err_name e @ utf16 '': '' @ err_message e)"

definition message_or_error :: "js_error \<Rightarrow> jstring" where
  "message_or_error e = (if err_message e \<noteq> [] then err_message e else error_to_string e)"

section \<open>Command console\<close>

text \<open>
  How a request ends: \<open>fetch\<close> rejects; or it resolves to a response with a status code
  and a status phrase, and then reading the body rejects or gives the body text.
\<close>

datatype exchange =
    NoResponse js_error
  | NoBody nat jstring js_error
  | Answer nat jstring jstring

definition response_ok :: "nat \<Rightarrow> bool" where
  "response_ok st = (200 \<le> st \<and> st \<le> 299)"

definition reply_key :: jstring where
  "reply_key = utf16 ''reply''"

definition status_key :: jstring where
  "status_key = utf16 ''status''"

definition thinking :: jstring where
  "thinking = utf16 ''Jarvis '' @ [0x2014] @ utf16 '' thinking...''"

definition command_request :: "jstring \<Rightarrow> request" where
  "command_request cmd =
     \<lparr>url = utf16 ''/api/command'', http_method = utf16 ''POST'',
      headers = [(utf16 ''Content-Type'', utf16 ''application/json'')],
      payload = Some (stringify_command cmd)\<rparr>"

text \<open>\<open>sendCmd\<close> up to the call of \<open>fetch\<close>: the check of the input, and lines 19 to 27.\<close>

definition sendCmd_refuse :: "page \<Rightarrow> page" where
  "sendCmd_refuse s = showReply (utf16 ''Please type a command.'') True s"

definition sendCmd_issue :: "jstring \<Rightarrow> page \<Rightarrow> page" where
  "sendCmd_issue cmd s =
     (let s1 = showReply thinking False s;
          s2 = s1\<lparr>send_disabled := True\<rparr>
      in s2\<lparr>fetches := fetches s2 @ [command_request cmd]\<rparr>)"

text \<open>
  Lines 30 to 40, with the body text in hand: \<open>data\<close> is the parsed body, or \<open>null\<close> when
  the parse throws.  \<open>Inl\<close> is an exception leaving the \<open>try\<close> block.
\<close>

definition sendCmd_respond :: "host \<Rightarrow> nat \<Rightarrow> jstring \<Rightarrow> jstring \<Rightarrow> page \<Rightarrow> js_error + page" where
  "sendCmd_respond h st phrase text s =
     (let data = (case JSON_parse text of None \<Rightarrow> JNull | Some d \<Rightarrow> d)
      in if \<not> response_ok st then
           (case text_of h (or_else h (or_else h (optional_member data reply_key) (Some (JStr text)))
                              (Some (JStr phrase))) of
              Inl e \<Rightarrow> Inl e
            | Inr m \<Rightarrow> Inr (showReply (utf16 ''Server error '' @ decimal st @ utf16 '': '' @ m) True s))
         else
           (case text_content_of h
                   (nullish_else (nullish_else (optional_member data reply_key) (Some (JStr text)))
                      (Some (JStr (utf16 ''(no reply)'')))) of
              Inl e \<Rightarrow> Inl e
            | Inr t \<Rightarrow> Inr (showReply t False s)))"

definition sendCmd_catch :: "js_error \<Rightarrow> page \<Rightarrow> page" where
  "sendCmd_catch err s = showReply (utf16 ''Network error: '' @ message_or_error err) True s"

definition sendCmd_finally :: "page \<Rightarrow> page" where
  "sendCmd_finally s = s\<lparr>send_disabled := False\<rparr>"

text \<open>The rest of \<open>sendCmd\<close> once the request has ended, on the page as it is then.\<close>

definition sendCmd_settle :: "host \<Rightarrow> exchange \<Rightarrow> page \<Rightarrow> page" where
  "sendCmd_settle h x s =
     sendCmd_finally
       (case x of
          NoResponse e \<Rightarrow> sendCmd_catch e s
        | NoBody st phrase e \<Rightarrow> sendCmd_catch e s
        | Answer st phrase text \<Rightarrow>
            (case sendCmd_respond h st phrase text s of
               Inl e \<Rightarrow> sendCmd_catch e s
             | Inr s1 \<Rightarrow> s1))"

text \<open>One call of \<open>sendCmd\<close> run from start to end with nothing in between.\<close>

definition sendCmd :: "host \<Rightarrow> exchange \<Rightarrow> page \<Rightarrow> page" where
  "sendCmd h x s =
     (let cmd = trim (input_value s)
      in if cmd = [] then sendCmd_refuse s
         else sendCmd_settle h x (sendCmd_issue cmd s))"

section \<open>Launch\<close>

definition launch_request :: request where
  "launch_request =
     \<lparr>url = utf16 ''/api/launch'', http_method = utf16 ''POST'', headers = [], payload = None\<rparr>"

definition launch_issue :: "page \<Rightarrow> page" where
  "launch_issue s =
     (let s1 = showReply (utf16 ''Launching assistant...'') False s
      in s1\<lparr>fetches := fetches s1 @ [launch_request]\<rparr>)"

text \<open>
  Lines 52 and 53: \<open>r.json()\<close> rejects with a SyntaxError on a body that is not JSON,
  \<open>j.status\<close> throws on \<open>null\<close>.
\<close>

definition launch_respond :: "host \<Rightarrow> jstring \<Rightarrow> page \<Rightarrow> js_error + page" where
  "launch_respond h text s =
     (case JSON_parse text of
        None \<Rightarrow> Inl (syntax_error (syntax_message h text))
      | Some j \<Rightarrow>
          (case member h j status_key of
             Inl e \<Rightarrow> Inl e
           | Inr v \<Rightarrow>
               (case text_content_of h (or_else h v (Some (JStr (utf16 ''Launch issued'')))) of
                  Inl e \<Rightarrow> Inl e
                | Inr t \<Rightarrow> Inr (showReply t False s))))"

definition launch_catch :: "js_error \<Rightarrow> page \<Rightarrow> page" where
  "launch_catch e s = showReply (utf16 ''Launch failed: '' @ message_or_error e) True s"

definition launch_settle :: "host \<Rightarrow> exchange \<Rightarrow> page \<Rightarrow> page" where
  "launch_settle h x s =
     (case x of
        NoResponse e \<Rightarrow> launch_catch e s
      | NoBody st phrase e \<Rightarrow> launch_catch e s
      | Answer st phrase text \<Rightarrow>
          (case launch_respond h text s of
             Inl e \<Rightarrow> launch_catch e s
           | Inr s1 \<Rightarrow> s1))"

text \<open>The \<open>click\<close> listener of \<open>launch-btn\<close> run from start to end.\<close>

definition launch :: "host \<Rightarrow> exchange \<Rightarrow> page \<Rightarrow> page" where
  "launch h x s = launch_settle h x (launch_issue s)"

section \<open>The event loop\<close>

text \<open>
  A call of \<open>sendCmd\<close> or of the launch listener stops at each \<open>await\<close> and other
  listeners run in between.  The world is the page and the calls that wait: for the
  response, or for the body of a response whose status line is known.
\<close>

datatype task =
    CommandFetch
  | CommandBody nat jstring
  | LaunchFetch
  | LaunchBody nat jstring

record world =
  dom :: page
  pending :: "task list"

text \<open>
  The user edits the input, clicks a button, presses a key in the input, or flips the
  theme control; the network settles the fetch or the body read of the waiting call at
  an index.  Which key was pressed is its name.
\<close>

datatype event =
    Edit jstring
  | ClickSend
  | KeyDown jstring
  | ClickLaunch
  | ChangeTheme
  | FetchSettled nat "(nat \<times> jstring) settled"
  | BodySettled nat "jstring settled"

definition call_sendCmd :: "world \<Rightarrow> world" where
  "call_sendCmd w =
     (let cmd = trim (input_value (dom w))
      in if cmd = [] then w\<lparr>dom := sendCmd_refuse (dom w)\<rparr>
         else w\<lparr>dom := sendCmd_issue cmd (dom w), pending := pending w @ [CommandFetch]\<rparr>)"

definition call_launch :: "world \<Rightarrow> world" where
  "call_launch w = w\<lparr>dom := launch_issue (dom w), pending := pending w @ [LaunchFetch]\<rparr>"

definition drop_task :: "nat \<Rightarrow> task list \<Rightarrow> task list" where
  "drop_task i ts = take i ts @ drop (Suc i) ts"

definition finish :: "nat \<Rightarrow> page \<Rightarrow> world \<Rightarrow> world" where
  "finish i s w = \<lparr>dom = s, pending = drop_task i (pending w)\<rparr>"

definition fetch_settled :: "host \<Rightarrow> nat \<Rightarrow> (nat \<times> jstring) settled \<Rightarrow> world \<Rightarrow> world" where
  "fetch_settled h i r w =
     (if i < length (pending w) then
        (case pending w ! i of
           CommandFetch \<Rightarrow>
             (case r of
                Fulfilled (st, phrase) \<Rightarrow> w\<lparr>pending := (pending w)[i := CommandBody st phrase]\<rparr>
              | Rejected e \<Rightarrow> finish i (sendCmd_settle h (NoResponse e) (dom w)) w)
         | LaunchFetch \<Rightarrow>
             (case r of
                Fulfilled (st, phrase) \<Rightarrow> w\<lparr>pending := (pending w)[i := LaunchBody st phrase]\<rparr>
              | Rejected e \<Rightarrow> finish i (launch_settle h (NoResponse e) (dom w)) w)
         | _ \<Rightarrow> w)
      else w)"

definition body_exchange :: "nat \<Rightarrow> jstring \<Rightarrow> jstring settled \<Rightarrow> exchange" where
  "body_exchange st phrase r =
     (case r of Fulfilled text \<Rightarrow> Answer st phrase text | Rejected e \<Rightarrow> NoBody st phrase e)"

definition body_settled :: "host \<Rightarrow> nat \<Rightarrow> jstring settled \<Rightarrow> world \<Rightarrow> world" where
  "body_settled h i r w =
     (if i < length (pending w) then
        (case pending w ! i of
           CommandBody st phrase \<Rightarrow>
             finish i (sendCmd_settle h (body_exchange st phrase r) (dom w)) w
         | LaunchBody st phrase \<Rightarrow>
             finish i (launch_settle h (body_exchange st phrase r) (dom w)) w
         | _ \<Rightarrow> w)
      else w)"

text \<open>
  One turn of the loop.  A disabled button receives no click, so \<open>ClickSend\<close> does
  nothing while \<open>send-btn\<close> is disabled; the \<open>keydown\<close> listener has no such gate.
\<close>

fun step :: "host \<Rightarrow> event \<Rightarrow> world \<Rightarrow> world" where
  "step h (Edit v) w = w\<lparr>dom := (dom w)\<lparr>input_value := v\<rparr>\<rparr>"
| "step h ClickSend w = (if send_disabled (dom w) then w else call_sendCmd w)"
| "step h (KeyDown k) w = (if k = utf16 ''Enter'' then call_sendCmd w else w)"
| "step h ClickLaunch w = call_launch w"
| "step h ChangeTheme w = w\<lparr>dom := toggle_theme (dom w)\<rparr>"
| "step h (FetchSettled i r) w = fetch_settled h i r w"
| "step h (BodySettled i r) w = body_settled h i r w"

fun run :: "host \<Rightarrow> event list \<Rightarrow> world \<Rightarrow> world" where
  "run h [] w = w"
| "run h (e # es) w = run h es (step h e w)"

fun is_command :: "task \<Rightarrow> bool" where
  "is_command CommandFetch = True"
| "is_command (CommandBody st phrase) = True"
| "is_command _ = False"

definition commands_in_flight :: "world \<Rightarrow> nat" where
  "commands_in_flight w = length (filter is_command (pending w))"



section \<open>What the specification says, in its own words\<close>

text \<open>
  "The reply field of the parsed body": the member \<open>reply\<close> of the body read as a JSON
  object, and nothing when the body is not JSON, is not an object or has no such member.
\<close>

definition reply_field :: "jstring \<Rightarrow> json option" where
  "reply_field text =
     (case JSON_parse text of
        Some (JObj ms) \<Rightarrow> map_of (rev ms) reply_key
      | _ \<Rightarrow> None)"

text \<open>"The status field of the JSON response", likewise.\<close>

definition status_field :: "jstring \<Rightarrow> json option" where
  "status_field text =
     (case JSON_parse text of
        Some (JObj ms) \<Rightarrow> map_of (rev ms) status_key
      | _ \<Rightarrow> None)"

text \<open>
  "The numeric status code": the text is the code in decimal, that is, digits that
  denote the code.  \<open>digits_value\<close> reads a run of decimal digits as a number.
\<close>

definition digits_value :: "jstring \<Rightarrow> nat" where
  "digits_value ds = foldl (\<lambda>a d. 10 * a + (unat d - 48)) 0 ds"

text \<open>Texts put one after the other with a comma between each two: the text of an array.\<close>

fun comma_join :: "jstring list \<Rightarrow> jstring" where
  "comma_join [] = []"
| "comma_join [t] = t"
| "comma_join (t # u # ts) = t @ [0x2C] @ comma_join (u # ts)"

section \<open>A sample host and page\<close>

text \<open>
  An engine and a page for the concrete runs below.  The two TypeError messages are
  V8's own.  The other three fields are stand-ins and not an engine's behaviour (a
  number prints as it was written, counts as true when it has a digit other than 0, and
  every SyntaxError has one message); no run below reaches them.
\<close>

definition sample_host :: host where
  "sample_host =
     \<lparr>number_truthy = (\<lambda>n. filter (\<lambda>c. 0x31 \<le> c \<and> c \<le> 0x39) n \<noteq> []),
      number_text = (\<lambda>n. n),
      syntax_message = (\<lambda>t. utf16 ''Unexpected token in JSON''),
      null_member_message =
        (\<lambda>k. utf16 ''Cannot read properties of null (reading '' @ [0x27] @ k @ [0x27] @ utf16 '')''),
      to_primitive_message = utf16 ''Cannot convert object to primitive value''\<rparr>"

definition sample_page :: page where
  "sample_page =
     \<lparr>input_value = utf16 '' open youtube '', reply_text = [], reply_color = [],
      send_disabled = False, body_classes = [], hero_classes = [utf16 ''hero''], fetches = []\<rparr>"


definition sample_waiting :: world where
  "sample_waiting =
     \<lparr>dom = sample_page\<lparr>send_disabled := True\<rparr>, pending = [CommandBody 200 (utf16 ''OK'')]\<rparr>"

section \<open>Basic facts\<close>

subsection \<open>Text\<close>

lemma trim_Nil_iff: "trim v = [] \<longleftrightarrow> list_all is_js_space v"
proof -
  have "dropWhile is_js_space (rev (dropWhile is_js_space v)) = [] \<longleftrightarrow> dropWhile is_js_space v = []"
  proof
    assume a: "dropWhile is_js_space (rev (dropWhile is_js_space v)) = []"
    show "dropWhile is_js_space v = []"
    proof (rule ccontr)
      assume n: "dropWhile is_js_space v \<noteq> []"
      then have "\<not> is_js_space (hd (dropWhile is_js_space v))"
        by (rule hd_dropWhile)
      moreover have "hd (dropWhile is_js_space v) \<in> set (rev (dropWhile is_js_space v))"
        using n by simp
      ultimately show False
        using a by (auto simp: dropWhile_eq_Nil_conv)
    qed
  qed (auto dest: set_dropWhileD)
  then show ?thesis
    by (simp add: trim_def dropWhile_eq_Nil_conv list_all_iff)
qed

lemma sample_nonblank: "trim (input_value sample_page) \<noteq> []"
  by (simp add: sample_page_def trim_def utf16_def is_js_space_def)

lemma sublist_message: "sublist (err_message e) (p @ message_or_error e)"
proof (cases "err_message e = []")
  case True
  then show ?thesis by simp
next
  case False
  then have "p @ message_or_error e = p @ err_message e @ []"
    by (simp add: message_or_error_def)
  then show ?thesis
    by (simp only: sublist_appendI)
qed

lemma sublist_network_error: "sublist (utf16 ''Network error'') (utf16 ''Network error: '' @ m)"
proof -
  have "utf16 ''Network error: '' @ m = [] @ utf16 ''Network error'' @ (utf16 '': '' @ m)"
    by (simp add: utf16_def)
  then show ?thesis
    by (simp only: sublist_appendI)
qed

lemma decimal_500: "decimal 500 = utf16 ''500''"
  by (simp add: decimal.simps utf16_def)

subsection \<open>Bodies parsed\<close>

lemma parse_hello:
  "JSON_parse (utf16 ''{\"reply\": \"Hello\"}'') = Some (JObj [(utf16 ''reply'', JStr (utf16 ''Hello''))])"
  by (simp add: JSON_parse_def utf16_def is_json_space_def is_digit_def)

lemma parse_ok: "JSON_parse (utf16 ''ok'') = None"
  by (simp add: JSON_parse_def utf16_def is_json_space_def is_digit_def)

lemma parse_empty: "JSON_parse [] = None"
  by (simp add: JSON_parse_def)

lemma parse_null: "JSON_parse (utf16 ''null'') = Some JNull"
  by (simp add: JSON_parse_def utf16_def is_json_space_def is_digit_def)

lemma reply_field_unparsed: "JSON_parse text = None \<Longrightarrow> reply_field text = None"
  by (simp add: reply_field_def)

lemma reply_field_hello: "reply_field (utf16 ''{\"reply\": \"Hello\"}'') = Some (JStr (utf16 ''Hello''))"
  by (simp add: reply_field_def parse_hello reply_key_def)

lemma reply_field_empty: "reply_field [] = None"
  by (simp add: reply_field_unparsed parse_empty)

lemma reply_field_boom: "reply_field (utf16 ''{\"reply\": \"boom\"}'') = Some (JStr (utf16 ''boom''))"
  by (simp add: reply_field_def reply_key_def JSON_parse_def utf16_def is_json_space_def is_digit_def)

lemma status_field_up: "status_field (utf16 ''{\"status\":\"up\"}'') = Some (JStr (utf16 ''up''))"
  by (simp add: status_field_def status_key_def JSON_parse_def utf16_def is_json_space_def
      is_digit_def)

lemma status_field_parsed: "status_field b = Some v \<Longrightarrow> \<exists>ms. JSON_parse b = Some (JObj ms)"
  by (simp add: status_field_def split: option.splits json.splits)

lemma status_of_parsed:
  "JSON_parse b = Some j \<Longrightarrow> own_member j status_key = status_field b"
  by (cases j) (simp_all add: status_field_def)

lemma data_reply:
  "optional_member (case JSON_parse text of None \<Rightarrow> JNull | Some d \<Rightarrow> d) reply_key = reply_field text"
  by (simp add: optional_member_def reply_field_def split: option.splits json.splits)

subsection \<open>The reply area\<close>

lemma reply_text_showReply: "reply_text (showReply t e s) = t"
  by (simp add: showReply_def)

lemma reply_color_showReply:
  "reply_color (showReply t e s) = (if e then error_color else accent s)"
  by (simp add: showReply_def)

lemma send_disabled_showReply: "send_disabled (showReply t e s) = send_disabled s"
  by (simp add: showReply_def)

lemma fetches_showReply: "fetches (showReply t e s) = fetches s"
  by (simp add: showReply_def)

lemma accent_sendCmd_issue: "accent (sendCmd_issue cmd s) = accent s"
  by (simp add: sendCmd_issue_def Let_def accent_def showReply_def)

lemma accent_launch_issue: "accent (launch_issue s) = accent s"
  by (simp add: launch_issue_def Let_def accent_def showReply_def)

lemma error_color_not_accent: "error_color \<noteq> accent s"
  by (simp add: error_color_def accent_def light_accent_def dark_accent_def utf16_def)

lemma finally_fields:
  "reply_text (sendCmd_finally s) = reply_text s"
  "reply_color (sendCmd_finally s) = reply_color s"
  "fetches (sendCmd_finally s) = fetches s"
  "send_disabled (sendCmd_finally s) = False"
  by (simp_all add: sendCmd_finally_def)





subsection \<open>One call of sendCmd\<close>

lemma response_ok_200: "response_ok 200"
  by (simp add: response_ok_def)

lemma not_ok_500: "\<not> response_ok 500"
  by (simp add: response_ok_def)

lemma sendCmd_nonblank:
  "trim (input_value s) \<noteq> [] \<Longrightarrow>
   sendCmd h x s = sendCmd_settle h x (sendCmd_issue (trim (input_value s)) s)"
  by (simp add: sendCmd_def Let_def)

lemma sendCmd_blank: "trim (input_value s) = [] \<Longrightarrow> sendCmd h x s = sendCmd_refuse s"
  by (simp add: sendCmd_def Let_def)

lemma respond_ok:
  "response_ok st \<Longrightarrow>
   sendCmd_respond h st ph text s =
     (case text_content_of h (nullish_else (nullish_else (reply_field text) (Some (JStr text)))
                                (Some (JStr (utf16 ''(no reply)'')))) of
        Inl e \<Rightarrow> Inl e
      | Inr t \<Rightarrow> Inr (showReply t False s))"
  by (simp add: sendCmd_respond_def Let_def data_reply)

lemma respond_not_ok:
  "\<not> response_ok st \<Longrightarrow>
   sendCmd_respond h st ph text s =
     (case text_of h (or_else h (or_else h (reply_field text) (Some (JStr text))) (Some (JStr ph))) of
        Inl e \<Rightarrow> Inl e
      | Inr m \<Rightarrow> Inr (showReply (utf16 ''Server error '' @ decimal st @ utf16 '': '' @ m) True s))"
  by (simp add: sendCmd_respond_def Let_def data_reply)

lemma ok_present:
  assumes "response_ok st" "reply_field text = Some v" "v \<noteq> JNull" "to_string h v = Inr t"
  shows "sendCmd_settle h (Answer st ph text) s = sendCmd_finally (showReply t False s)"
  using assms
  by (simp add: sendCmd_settle_def respond_ok nullish_else_def text_content_of_def)

lemma ok_absent:
  assumes "response_ok st" "reply_field text = None \<or> reply_field text = Some JNull"
  shows "sendCmd_settle h (Answer st ph text) s = sendCmd_finally (showReply text False s)"
  using assms
  by (auto simp add: sendCmd_settle_def respond_ok nullish_else_def text_content_of_def)

lemma settle_not_ok:
  assumes "\<not> response_ok st"
    and "text_of h (or_else h (or_else h (reply_field text) (Some (JStr text))) (Some (JStr ph))) = Inr m"
  shows "sendCmd_settle h (Answer st ph text) s =
         sendCmd_finally (showReply (utf16 ''Server error '' @ decimal st @ utf16 '': '' @ m) True s)"
  using assms by (simp add: sendCmd_settle_def respond_not_ok)

lemma settle_color_not_ok:
  assumes "\<not> response_ok st"
  shows "reply_color (sendCmd_settle h (Answer st ph text) s) = error_color"
  using assms
  by (simp add: sendCmd_settle_def respond_not_ok sendCmd_catch_def finally_fields
      reply_color_showReply split: sum.splits)

lemma settle_no_response:
  "sendCmd_settle h (NoResponse e) s
     = sendCmd_finally (showReply (utf16 ''Network error: '' @ message_or_error e) True s)"
  by (simp add: sendCmd_settle_def sendCmd_catch_def)

lemma settle_no_body:
  "sendCmd_settle h (NoBody st ph e) s
     = sendCmd_finally (showReply (utf16 ''Network error: '' @ message_or_error e) True s)"
  by (simp add: sendCmd_settle_def sendCmd_catch_def)

lemma send_disabled_settle: "send_disabled (sendCmd_settle h x s) = False"
  by (simp add: sendCmd_settle_def finally_fields)

subsection \<open>One call of the launch listener\<close>


lemma fetches_launch_settle: "fetches (launch_settle h x s) = fetches s"
  by (simp add: launch_settle_def launch_catch_def launch_respond_def fetches_showReply
      split: exchange.splits sum.splits option.splits)

lemma fetches_launch: "fetches (launch h x s) = fetches s @ [launch_request]"
  by (simp add: launch_def fetches_launch_settle launch_issue_def Let_def fetches_showReply)

lemma launch_respond_parsed:
  assumes "JSON_parse b = Some j" "j \<noteq> JNull"
  shows "launch_respond h b s =
     (case text_content_of h (or_else h (status_field b) (Some (JStr (utf16 ''Launch issued'')))) of
        Inl e \<Rightarrow> Inl e
      | Inr t \<Rightarrow> Inr (showReply t False s))"
  using assms by (simp add: launch_respond_def member_def status_of_parsed)

lemma launch_respond_null:
  "JSON_parse b = Some JNull \<Longrightarrow>
   launch_respond h b s = Inl (type_error (null_member_message h status_key))"
  by (simp add: launch_respond_def member_def)

lemma launch_respond_unparsed:
  "JSON_parse b = None \<Longrightarrow> launch_respond h b s = Inl (syntax_error (syntax_message h b))"
  by (simp add: launch_respond_def)

lemma launch_shown_status:
  assumes "status_field b = Some v" "truthy h (Some v)" "to_string h v = Inr t"
  shows "launch h (Answer st ph b) s = showReply t False (launch_issue s)"
proof -
  obtain ms where p: "JSON_parse b = Some (JObj ms)"
    using status_field_parsed [OF assms(1)] by blast
  have "v \<noteq> JNull"
    using assms(2) by auto
  then show ?thesis
    using assms launch_respond_parsed [OF p, of h "launch_issue s"]
    by (simp add: launch_def launch_settle_def or_else_def text_content_of_def)
qed

lemma launch_shown_default:
  assumes "JSON_parse b = Some j" "j \<noteq> JNull" "\<not> truthy h (status_field b)"
  shows "launch h (Answer st ph b) s = showReply (utf16 ''Launch issued'') False (launch_issue s)"
proof -
  have "utf16 ''Launch issued'' \<noteq> []"
    by (simp add: utf16_def)
  then show ?thesis
    using assms(3) launch_respond_parsed [OF assms(1,2), of h "launch_issue s"]
    by (simp add: launch_def launch_settle_def or_else_def text_content_of_def)
qed

lemma launch_failed_status:
  assumes "status_field b = Some v" "truthy h (Some v)" "to_string h v = Inl e"
  shows "launch h (Answer st ph b) s = launch_catch e (launch_issue s)"
proof -
  obtain ms where p: "JSON_parse b = Some (JObj ms)"
    using status_field_parsed [OF assms(1)] by blast
  have "v \<noteq> JNull"
    using assms(2) by auto
  then show ?thesis
    using assms launch_respond_parsed [OF p, of h "launch_issue s"]
    by (simp add: launch_def launch_settle_def or_else_def text_content_of_def)
qed

lemma launch_failed_null:
  "JSON_parse b = Some JNull \<Longrightarrow>
   launch h (Answer st ph b) s
     = launch_catch (type_error (null_member_message h status_key)) (launch_issue s)"
  by (simp add: launch_def launch_settle_def launch_respond_null)

lemma launch_failed_unparsed:
  "JSON_parse b = None \<Longrightarrow>
   launch h (Answer st ph b) s = launch_catch (syntax_error (syntax_message h b)) (launch_issue s)"
  by (simp add: launch_def launch_settle_def launch_respond_unparsed)

lemma launch_failed_fetch:
  "launch h (NoResponse e) s = launch_catch e (launch_issue s)"
  "launch h (NoBody st ph e) s = launch_catch e (launch_issue s)"
  by (simp_all add: launch_def launch_settle_def)

lemma launch_catch_fields:
  "reply_text (launch_catch e s) = utf16 ''Launch failed: '' @ message_or_error e"
  "reply_color (launch_catch e s) = error_color"
  by (simp_all add: launch_catch_def reply_text_showReply reply_color_showReply)

lemma launch_color_answer:
  "(reply_color (launch h (Answer st ph b) s) = error_color)
     = (JSON_parse b = None \<or> JSON_parse b = Some JNull
        \<or> (\<exists>v. status_field b = Some v \<and> truthy h (Some v) \<and> isl (to_string h v)))"
proof (cases "JSON_parse b")
  case None
  then have "status_field b = None"
    by (simp add: status_field_def)
  then show ?thesis
    using None by (simp add: launch_failed_unparsed launch_catch_fields)
next
  case (Some j)
  show ?thesis
  proof (cases "j = JNull")
    case True
    then show ?thesis
      using Some by (simp add: launch_failed_null launch_catch_fields)
  next
    case False
    note nn = this
    show ?thesis
    proof (cases "truthy h (status_field b)")
      case False
      then have "\<not> (\<exists>v. status_field b = Some v \<and> truthy h (Some v) \<and> isl (to_string h v))"
        by auto
      then show ?thesis
        using Some nn launch_shown_default [OF Some nn False, of st ph s]
          error_color_not_accent [of s]
        by (simp add: reply_color_showReply accent_launch_issue eq_commute [of "accent s"])
    next
      case True
      then obtain v where v: "status_field b = Some v"
        by (cases "status_field b") auto
      then have tv: "truthy h (Some v)"
        using True by simp
      show ?thesis
      proof (cases "to_string h v")
        case (Inl e)
        then show ?thesis
          using v tv launch_failed_status [OF v tv Inl, of st ph s]
          by (auto simp add: launch_catch_fields)
      next
        case (Inr t)
        then show ?thesis
          using v tv Some nn launch_shown_status [OF v tv Inr, of st ph s]
            error_color_not_accent [of s]
          by (simp add: reply_color_showReply accent_launch_issue eq_commute [of "accent s"])
      qed
    qed
  qed
qed

subsection \<open>Turns of the event loop\<close>

lemma count_update:
  "i < length ts \<Longrightarrow> P (ts ! i) = P t \<Longrightarrow>
   length (filter P (ts[i := t])) = length (filter P ts)"
proof (induction ts arbitrary: i)
  case Nil
  then show ?case by simp
next
  case (Cons a ts)
  then show ?case by (cases i) auto
qed

lemma count_drop_task:
  "i < length ts \<Longrightarrow>
   length (filter P ts) = length (filter P (drop_task i ts)) + (if P (ts ! i) then 1 else 0)"
proof (induction ts arbitrary: i)
  case Nil
  then show ?case by simp
next
  case (Cons a ts)
  show ?case
  proof (cases i)
    case 0
    then show ?thesis by (simp add: drop_task_def)
  next
    case (Suc j)
    then have "j < length ts" using Cons.prems by simp
    from Cons.IH [OF this] Suc show ?thesis
      by (simp add: drop_task_def)
  qed
qed

lemma in_flight_update:
  "i < length (pending w) \<Longrightarrow> is_command (pending w ! i) = is_command t \<Longrightarrow>
   commands_in_flight (w\<lparr>pending := (pending w)[i := t]\<rparr>) = commands_in_flight w"
  by (simp add: commands_in_flight_def count_update)

lemma in_flight_finish:
  "i < length (pending w) \<Longrightarrow>
   commands_in_flight w
     = commands_in_flight (finish i s w) + (if is_command (pending w ! i) then 1 else 0)"
  using count_drop_task [of i "pending w" is_command]
  by (simp add: commands_in_flight_def finish_def)

lemma dom_finish: "dom (finish i s w) = s"
  by (simp add: finish_def)


lemma in_flight_call_sendCmd:
  "commands_in_flight (call_sendCmd w)
     = commands_in_flight w + (if trim (input_value (dom w)) = [] then 0 else 1)"
  by (simp add: call_sendCmd_def Let_def commands_in_flight_def)


lemma call_sendCmd_blank:
  "trim (input_value (dom w)) = [] \<Longrightarrow> call_sendCmd w = w\<lparr>dom := sendCmd_refuse (dom w)\<rparr>"
  by (simp add: call_sendCmd_def Let_def)



lemma waiting_done:
  "commands_in_flight (step sample_host (BodySettled 0 (Fulfilled [])) sample_waiting) < commands_in_flight sample_waiting"
  by (simp add: sample_waiting_def body_settled_def finish_def drop_task_def commands_in_flight_def)

subsection \<open>A call run without interruption\<close>

text \<open>
  \<open>sendCmd\<close> and \<open>launch\<close> above are the event loop with nothing between the turns of
  one call; and whatever happens in between, the text shown when a call ends is the
  text of the uninterrupted call.
\<close>

lemma run_submission:
  assumes "trim (input_value s) \<noteq> []"
  shows "run h [KeyDown (utf16 ''Enter''), FetchSettled 0 (Fulfilled (st, ph)),
                BodySettled 0 (Fulfilled b)] \<lparr>dom = s, pending = []\<rparr>
           = \<lparr>dom = sendCmd h (Answer st ph b) s, pending = []\<rparr>"
  using assms
  by (simp add: call_sendCmd_def Let_def fetch_settled_def body_settled_def body_exchange_def
      finish_def drop_task_def sendCmd_nonblank)

lemma run_submission_rejected:
  assumes "trim (input_value s) \<noteq> []"
  shows "run h [KeyDown (utf16 ''Enter''), FetchSettled 0 (Rejected e)] \<lparr>dom = s, pending = []\<rparr>
           = \<lparr>dom = sendCmd h (NoResponse e) s, pending = []\<rparr>"
  using assms
  by (simp add: call_sendCmd_def Let_def fetch_settled_def finish_def drop_task_def sendCmd_nonblank)

lemma run_launch:
  "run h [ClickLaunch, FetchSettled 0 (Fulfilled (st, ph)), BodySettled 0 (Fulfilled b)]
       \<lparr>dom = s, pending = []\<rparr>
     = \<lparr>dom = launch h (Answer st ph b) s, pending = []\<rparr>"
  by (simp add: call_launch_def fetch_settled_def body_settled_def body_exchange_def
      finish_def drop_task_def launch_def)

lemma settled_command_body:
  assumes "i < length (pending w)" "pending w ! i = CommandBody st ph"
  shows "dom (step h (BodySettled i (Fulfilled b)) w) = sendCmd_settle h (Answer st ph b) (dom w)"
  using assms by (simp add: body_settled_def body_exchange_def dom_finish)

lemma settle_text_any_page:
  "reply_text (sendCmd_settle h x s) = reply_text (sendCmd_settle h x s')"
  by (simp add: sendCmd_settle_def sendCmd_respond_def sendCmd_catch_def Let_def finally_fields
      reply_text_showReply split: exchange.splits sum.splits)

lemma loop_shows_as_sendCmd:
  assumes "trim (input_value s) \<noteq> []" "i < length (pending w)" "pending w ! i = CommandBody st ph"
  shows "reply_text (dom (step h (BodySettled i (Fulfilled b)) w))
           = reply_text (sendCmd h (Answer st ph b) s)"
  using assms settle_text_any_page [of h "Answer st ph b" "dom w"]
  by (simp add: settled_command_body sendCmd_nonblank del: step.simps)

subsection \<open>Serialised submissions\<close>






lemma fetch_settled_completion:
  assumes "commands_in_flight (fetch_settled h i r w) < commands_in_flight w"
  shows "send_disabled (dom (fetch_settled h i r w)) = False"
proof (cases "i < length (pending w)")
  case False
  then show ?thesis using assms by (simp add: fetch_settled_def)
next
  case True
  note i = this
  show ?thesis
  proof (cases "pending w ! i")
    case CommandFetch
    show ?thesis
    proof (cases r)
      case (Fulfilled p)
      then show ?thesis
        using assms i CommandFetch
        by (cases p) (simp add: fetch_settled_def in_flight_update)
    next
      case (Rejected e)
      then show ?thesis
        using i CommandFetch
        by (simp add: fetch_settled_def dom_finish send_disabled_settle)
    qed
  next
    case LaunchFetch
    show ?thesis
    proof (cases r)
      case (Fulfilled p)
      then show ?thesis
        using assms i LaunchFetch
        by (cases p) (simp add: fetch_settled_def in_flight_update)
    next
      case (Rejected e)
      then show ?thesis
        using assms i LaunchFetch in_flight_finish [OF i, of "launch_settle h (NoResponse e) (dom w)"]
        by (simp add: fetch_settled_def)
    qed
  next
    case (CommandBody st ph)
    then show ?thesis using assms i by (simp add: fetch_settled_def)
  next
    case (LaunchBody st ph)
    then show ?thesis using assms i by (simp add: fetch_settled_def)
  qed
qed

lemma body_settled_completion:
  assumes "commands_in_flight (body_settled h i r w) < commands_in_flight w"
  shows "send_disabled (dom (body_settled h i r w)) = False"
proof (cases "i < length (pending w)")
  case False
  then show ?thesis using assms by (simp add: body_settled_def)
next
  case True
  note i = this
  show ?thesis
  proof (cases "pending w ! i")
    case (CommandBody st ph)
    then show ?thesis
      using i by (simp add: body_settled_def dom_finish send_disabled_settle)
  next
    case (LaunchBody st ph)
    then show ?thesis
      using assms i
        in_flight_finish [OF i, of "launch_settle h (body_exchange st ph r) (dom w)"]
      by (simp add: body_settled_def)
  next
    case CommandFetch
    then show ?thesis using assms i by (simp add: body_settled_def)
  next
    case LaunchFetch
    then show ?thesis using assms i by (simp add: body_settled_def)
  qed
qed

lemma step_completion:
  assumes "commands_in_flight (step h e w) < commands_in_flight w"
  shows "send_disabled (dom (step h e w)) = False"
proof (cases e)
  case (Edit v)
  then show ?thesis using assms by (simp add: commands_in_flight_def)
next
  case ClickSend
  then show ?thesis
    using assms by (simp add: in_flight_call_sendCmd split: if_splits)
next
  case (KeyDown k)
  then show ?thesis
    using assms by (simp add: in_flight_call_sendCmd split: if_splits)
next
  case ClickLaunch
  then show ?thesis using assms by (simp add: call_launch_def commands_in_flight_def)
next
  case ChangeTheme
  then show ?thesis using assms by (simp add: commands_in_flight_def)
next
  case (FetchSettled i r)
  then show ?thesis using assms by (simp add: fetch_settled_completion)
next
  case (BodySettled i r)
  then show ?thesis using assms by (simp add: body_settled_completion)
qed

subsection \<open>Decimal digits and the text of an array\<close>

lemma unat_digit: "n < 10 \<Longrightarrow> unat (0x30 + of_nat n :: 16 word) = 48 + n"
  by (simp add: unat_word_ariths unat_of_nat)

lemma digits_value_snoc: "digits_value (ds @ [d]) = 10 * digits_value ds + (unat d - 48)"
  by (simp add: digits_value_def)

lemma digits_value_decimal: "digits_value (decimal n) = n"
proof (induction n rule: decimal.induct)
  case (1 n)
  show ?case
  proof (cases "n < 10")
    case True
    then show ?thesis
      by (subst decimal.simps) (simp add: digits_value_def unat_digit)
  next
    case False
    have m: "n mod 10 < 10" by simp
    have "digits_value (decimal n) = 10 * digits_value (decimal (n div 10)) + n mod 10"
      using False by (subst decimal.simps) (simp add: digits_value_snoc unat_digit [OF m])
    then show ?thesis
      using 1 [OF False] by simp
  qed
qed

lemma is_digit_unit: "n < 10 \<Longrightarrow> is_digit (0x30 + of_nat n)"
proof -
  assume n: "n < 10"
  have "unat (0x30 + of_nat n :: 16 word) = 48 + n"
    using n by (rule unat_digit)
  then show ?thesis
    using n by (simp add: is_digit_def word_le_nat_alt)
qed

lemma digits_decimal: "list_all is_digit (decimal n)"
proof (induction n rule: decimal.induct)
  case (1 n)
  show ?case
  proof (cases "n < 10")
    case True
    then show ?thesis
      by (subst decimal.simps) (simp add: is_digit_unit)
  next
    case False
    have m: "n mod 10 < 10" by simp
    show ?thesis
      using False 1 [OF False] is_digit_unit [OF m]
      by (subst decimal.simps) simp
  qed
qed

lemma decimal_not_Nil: "decimal n \<noteq> []"
  by (subst decimal.simps) simp

lemma hd_decimal: "0 < n \<Longrightarrow> hd (decimal n) \<noteq> 0x30"
proof (induction n rule: decimal.induct)
  case (1 n)
  show ?case
  proof (cases "n < 10")
    case True
    have u: "unat (0x30 + of_nat n :: 16 word) = 48 + n"
      using True by (rule unat_digit)
    have "(0x30 + of_nat n :: 16 word) \<noteq> 0x30"
    proof
      assume "(0x30 + of_nat n :: 16 word) = 0x30"
      then have "unat (0x30 + of_nat n :: 16 word) = unat (0x30 :: 16 word)"
        by simp
      then show False
        using u 1(2) by simp
    qed
    then show ?thesis
      using True by (subst decimal.simps) simp
  next
    case False
    then have "0 < n div 10" by simp
    then have "hd (decimal (n div 10)) \<noteq> 0x30"
      using 1(1) [OF False] by simp
    then show ?thesis
      using False decimal_not_Nil [of "n div 10"] by (subst decimal.simps) simp
  qed
qed

lemma join_texts_Inr: "join_texts (map Inr ts) = Inr (comma_join ts)"
  by (induction ts rule: comma_join.induct) simp_all

lemma join_texts_Inl: "join_texts rs = Inl e \<Longrightarrow> Inl e \<in> set rs"
  by (induction rs rule: join_texts.induct) (auto split: sum.splits)

lemma to_string_array:
  assumes "list_all2 (\<lambda>v t. if v = JNull then t = [] else to_string h v = Inr t) vs ts"
  shows "to_string h (JArr vs) = Inr (comma_join ts)"
proof -
  have "map (\<lambda>v. if v = JNull then Inr [] else to_string h v) vs = map Inr ts"
    using assms by (induction rule: list_all2_induct) (auto split: if_splits)
  then show ?thesis
    by (simp add: join_texts_Inr)
qed

lemma to_string_error: "to_string h v = Inl e \<Longrightarrow> e = type_error (to_primitive_message h)"
proof (induction h v arbitrary: e rule: to_string.induct)
  case (5 h vs)
  from 5(2) have "join_texts (map (\<lambda>v. if v = JNull then Inr [] else to_string h v) vs) = Inl e"
    by simp
  then have "Inl e \<in> set (map (\<lambda>v. if v = JNull then Inr [] else to_string h v) vs)"
    by (rule join_texts_Inl)
  then obtain v where v: "v \<in> set vs" "(if v = JNull then Inr [] else to_string h v) = Inl e"
    by auto
  then have "v \<noteq> JNull" "to_string h v = Inl e"
    by (auto split: if_splits)
  then show ?case
    using 5(1) [OF v(1)] by simp
qed (auto split: if_splits)

subsection \<open>Replies with and without a text form\<close>

lemma ok_failed:
  assumes "response_ok st" "reply_field body = Some v" "v \<noteq> JNull" "to_string h v = Inl e"
  shows "sendCmd_settle h (Answer st ph body) s = sendCmd_finally (sendCmd_catch e s)"
  using assms
  by (simp add: sendCmd_settle_def respond_ok nullish_else_def text_content_of_def)

lemma not_ok_failed:
  assumes "\<not> response_ok st" "reply_field body = Some v" "truthy h (Some v)" "to_string h v = Inl e"
  shows "sendCmd_settle h (Answer st ph body) s = sendCmd_finally (sendCmd_catch e s)"
  using assms
  by (simp add: sendCmd_settle_def respond_not_ok or_else_def text_of_def)

lemma catch_fields:
  "reply_text (sendCmd_catch e s) = utf16 ''Network error: '' @ message_or_error e"
  "reply_color (sendCmd_catch e s) = error_color"
  by (simp_all add: sendCmd_catch_def reply_text_showReply reply_color_showReply)

lemma success_shown:
  assumes "trim (input_value s) \<noteq> []" "response_ok st"
    and "reply_field body = Some v" "v \<noteq> JNull" "to_string h v = Inr t"
  shows "reply_text (sendCmd h (Answer st ph body) s) = t
       \<and> reply_color (sendCmd h (Answer st ph body) s) = accent s"
  using assms
  by (simp add: sendCmd_nonblank ok_present finally_fields reply_text_showReply
      reply_color_showReply accent_sendCmd_issue)

lemma success_raw:
  assumes "trim (input_value s) \<noteq> []" "response_ok st"
    and "reply_field body = None \<or> reply_field body = Some JNull"
  shows "reply_text (sendCmd h (Answer st ph body) s) = body
       \<and> reply_color (sendCmd h (Answer st ph body) s) = accent s"
  using assms
  by (simp add: sendCmd_nonblank ok_absent finally_fields reply_text_showReply
      reply_color_showReply accent_sendCmd_issue)

lemma success_failed:
  assumes "trim (input_value s) \<noteq> []" "response_ok st"
    and "reply_field body = Some v" "v \<noteq> JNull" "to_string h v = Inl e"
  shows "reply_text (sendCmd h (Answer st ph body) s)
           = utf16 ''Network error: '' @ message_or_error (type_error (to_primitive_message h))
       \<and> reply_color (sendCmd h (Answer st ph body) s) = error_color"
  using assms to_string_error [OF assms(5)]
  by (simp add: sendCmd_nonblank ok_failed finally_fields catch_fields)

lemma reply_field_list:
  "reply_field (utf16 ''{\"reply\": [true, null, \"a\", {}]}'')
     = Some (JArr [JBool True, JNull, JStr (utf16 ''a''), JObj []])"
  by (simp add: reply_field_def reply_key_def JSON_parse_def utf16_def is_json_space_def is_digit_def)

lemma reply_field_object:
  "reply_field (utf16 ''{\"reply\":{\"toString\":\"x\"}}'')
     = Some (JObj [(utf16 ''toString'', JStr (utf16 ''x''))])"
  by (simp add: reply_field_def reply_key_def JSON_parse_def utf16_def is_json_space_def is_digit_def)

lemma comma_join_sample:
  "comma_join [utf16 ''true'', [], utf16 ''a'', utf16 ''[object Object]''] = utf16 ''true,,a,[object Object]''"
  by (simp add: utf16_def)

lemma failure_shown:
  assumes "trim (input_value s) \<noteq> []" "\<not> response_ok st"
    and "reply_field body = Some v" "truthy h (Some v)" "to_string h v = Inr t"
  shows "reply_text (sendCmd h (Answer st ph body) s)
           = utf16 ''Server error '' @ decimal st @ utf16 '': '' @ t"
proof -
  have "text_of h (or_else h (or_else h (reply_field body) (Some (JStr body))) (Some (JStr ph))) = Inr t"
    using assms(3-5) by (simp add: or_else_def text_of_def)
  then show ?thesis
    using assms(1,2)
    by (simp add: sendCmd_nonblank settle_not_ok finally_fields reply_text_showReply)
qed

lemma failure_raw:
  assumes "trim (input_value s) \<noteq> []" "\<not> response_ok st" "\<not> truthy h (reply_field body)"
  shows "reply_text (sendCmd h (Answer st ph body) s)
           = utf16 ''Server error '' @ decimal st @ utf16 '': '' @ (if body \<noteq> [] then body else ph)"
proof -
  have "text_of h (or_else h (or_else h (reply_field body) (Some (JStr body))) (Some (JStr ph)))
          = Inr (if body \<noteq> [] then body else ph)"
    using assms(3) by (simp add: or_else_def text_of_def)
  then show ?thesis
    using assms(1,2)
    by (simp add: sendCmd_nonblank settle_not_ok finally_fields reply_text_showReply del: if_split)
qed

lemma failure_failed:
  assumes "trim (input_value s) \<noteq> []" "\<not> response_ok st"
    and "reply_field body = Some v" "truthy h (Some v)" "to_string h v = Inl e"
  shows "reply_text (sendCmd h (Answer st ph body) s)
           = utf16 ''Network error: '' @ message_or_error (type_error (to_primitive_message h))"
  using assms to_string_error [OF assms(5)]
  by (simp add: sendCmd_nonblank not_ok_failed finally_fields catch_fields)

lemma failure_colour:
  assumes "trim (input_value s) \<noteq> []" "\<not> response_ok st"
  shows "reply_color (sendCmd h (Answer st ph body) s) = error_color"
  using assms by (simp add: sendCmd_nonblank settle_color_not_ok)

lemma not_ok_404: "\<not> response_ok 404"
  by (simp add: response_ok_def)

lemma decimal_404: "decimal 404 = utf16 ''404''"
  by (simp add: decimal.simps utf16_def)

lemma falsy_cases:
  "(\<not> truthy h r) =
     (r = None \<or> r = Some JNull \<or> r = Some (JBool False) \<or> r = Some (JStr [])
      \<or> (\<exists>n. r = Some (JNum n) \<and> \<not> number_truthy h n))"
proof (cases r)
  case None
  then show ?thesis by simp
next
  case (Some v)
  then show ?thesis by (cases v) auto
qed

subsection \<open>The status member\<close>

lemma launch_status_shown:
  assumes "status_field b = Some v" "truthy h (Some v)" "to_string h v = Inr t"
  shows "reply_text (launch h (Answer st ph b) s) = t
       \<and> reply_color (launch h (Answer st ph b) s) = accent s"
  using launch_shown_status [OF assms, of st ph s]
  by (simp add: reply_text_showReply reply_color_showReply accent_launch_issue)

lemma launch_status_thrown:
  assumes "status_field b = Some v" "truthy h (Some v)" "to_string h v = Inl e"
  shows "reply_text (launch h (Answer st ph b) s)
           = utf16 ''Launch failed: '' @ message_or_error (type_error (to_primitive_message h))
       \<and> reply_color (launch h (Answer st ph b) s) = error_color"
  using launch_failed_status [OF assms, of st ph s] to_string_error [OF assms(3)]
  by (simp add: launch_catch_fields)

lemma launch_status_default:
  assumes "JSON_parse b = Some j" "j \<noteq> JNull" "\<not> truthy h (status_field b)"
  shows "reply_text (launch h (Answer st ph b) s) = utf16 ''Launch issued''
       \<and> reply_color (launch h (Answer st ph b) s) = accent s"
  using launch_shown_default [OF assms, of st ph s]
  by (simp add: reply_text_showReply reply_color_showReply accent_launch_issue)

lemma status_field_false: "status_field (utf16 ''{\"status\":false}'') = Some (JBool False)"
  by (simp add: status_field_def status_key_def JSON_parse_def utf16_def is_json_space_def
      is_digit_def)

lemma parse_status_false:
  "JSON_parse (utf16 ''{\"status\":false}'') = Some (JObj [(utf16 ''status'', JBool False)])"
  by (simp add: JSON_parse_def utf16_def is_json_space_def is_digit_def)

subsection \<open>Starting a submission\<close>





section \<open>Replies to a command\<close>

text \<open>
  C1, as stated, fails: a 2xx response whose \<open>reply\<close> member is an object with a member
  of its own named \<open>toString\<close> shows neither the member nor the raw body.  The conversion
  to text throws inside the \<open>try\<close> block, and the \<open>catch\<close> branch shows
  \<open>Network error:\<close> and the message of the TypeError, in the error colour.
\<close>

theorem success_unconvertible_reply:
  "response_ok 200
   \<and> reply_field (utf16 ''{\"reply\":{\"toString\":\"x\"}}'')
       = Some (JObj [(utf16 ''toString'', JStr (utf16 ''x''))])
   \<and> reply_text (sendCmd sample_host (Answer 200 (utf16 ''OK'') (utf16 ''{\"reply\":{\"toString\":\"x\"}}''))
         sample_page) = utf16 ''Network error: Cannot convert object to primitive value''
   \<and> reply_color (sendCmd sample_host (Answer 200 (utf16 ''OK'') (utf16 ''{\"reply\":{\"toString\":\"x\"}}''))
         sample_page) = error_color
   \<and> reply_text (sendCmd sample_host (Answer 200 (utf16 ''OK'') (utf16 ''{\"reply\":{\"toString\":\"x\"}}''))
         sample_page) \<noteq> utf16 ''{\"reply\":{\"toString\":\"x\"}}''"
proof -
  let ?shown = "sendCmd sample_host (Answer 200 (utf16 ''OK'') (utf16 ''{\"reply\":{\"toString\":\"x\"}}''))
         sample_page"
  have c: "to_string sample_host (JObj [(utf16 ''toString'', JStr (utf16 ''x''))])
             = Inl (type_error (to_primitive_message sample_host))"
    by simp
  have m: "message_or_error (type_error (to_primitive_message sample_host))
             = utf16 ''Cannot convert object to primitive value''"
    by (simp add: message_or_error_def type_error_def sample_host_def utf16_def)
  have f: "reply_text ?shown = utf16 ''Network error: '' @ utf16 ''Cannot convert object to primitive value''
       \<and> reply_color ?shown = error_color"
    using success_failed [OF sample_nonblank response_ok_200 reply_field_object _ c] m by simp
  have t: "utf16 ''Network error: '' @ utf16 ''Cannot convert object to primitive value''
             = utf16 ''Network error: Cannot convert object to primitive value''"
    by (simp add: utf16_def)
  have d: "utf16 ''Network error: Cannot convert object to primitive value''
             \<noteq> utf16 ''{\"reply\":{\"toString\":\"x\"}}''"
    by (simp add: utf16_def)
  show ?thesis
    using f d reply_field_object response_ok_200 unfolding t by simp
qed

text \<open>
  C1, amended.  A submission that got a response with a 2xx status shows the raw body
  text when the body is not JSON, is not an object, or has no \<open>reply\<close> member other
  than \<open>null\<close>.  Otherwise it shows the \<open>reply\<close> member as text: a string as it is,
  \<open>true\<close> or \<open>false\<close>, a number as the engine prints it, \<open>[object Object]\<close> for an
  object, the texts of its elements joined by commas for an array.  All of these in the
  accent colour of the theme.  When the member has no text (an object with a member of its
  own named \<open>toString\<close>, or an array that holds one) it shows, in the error colour,
  \<open>Network error:\<close> and the message of the TypeError.  The body \<open>{"reply": "Hello"}\<close>
  with status 200 shows \<open>Hello\<close>; the body \<open>ok\<close>, which is not JSON, shows \<open>ok\<close>.
\<close>

theorem success_reply_display:
  assumes "trim (input_value s) \<noteq> []" and "response_ok st"
  shows "(reply_field body = None \<or> reply_field body = Some JNull \<longrightarrow>
            reply_text (sendCmd h (Answer st ph body) s) = body
            \<and> reply_color (sendCmd h (Answer st ph body) s) = accent s)
       \<and> (JSON_parse body = None \<longrightarrow> reply_text (sendCmd h (Answer st ph body) s) = body)
       \<and> (\<forall>t. reply_field body = Some (JStr t) \<longrightarrow>
            reply_text (sendCmd h (Answer st ph body) s) = t
            \<and> reply_color (sendCmd h (Answer st ph body) s) = accent s)
       \<and> (\<forall>b. reply_field body = Some (JBool b) \<longrightarrow>
            reply_text (sendCmd h (Answer st ph body) s) = (if b then utf16 ''true'' else utf16 ''false'')
            \<and> reply_color (sendCmd h (Answer st ph body) s) = accent s)
       \<and> (\<forall>n. reply_field body = Some (JNum n) \<longrightarrow>
            reply_text (sendCmd h (Answer st ph body) s) = number_text h n
            \<and> reply_color (sendCmd h (Answer st ph body) s) = accent s)
       \<and> (\<forall>ms. reply_field body = Some (JObj ms) \<and> map_of ms (utf16 ''toString'') = None \<longrightarrow>
            reply_text (sendCmd h (Answer st ph body) s) = utf16 ''[object Object]''
            \<and> reply_color (sendCmd h (Answer st ph body) s) = accent s)
       \<and> (\<forall>ms. reply_field body = Some (JObj ms) \<and> map_of ms (utf16 ''toString'') \<noteq> None \<longrightarrow>
            reply_text (sendCmd h (Answer st ph body) s)
              = utf16 ''Network error: '' @ message_or_error (type_error (to_primitive_message h))
            \<and> reply_color (sendCmd h (Answer st ph body) s) = error_color)
       \<and> (\<forall>vs ts. reply_field body = Some (JArr vs)
              \<and> list_all2 (\<lambda>v t. if v = JNull then t = [] else to_string h v = Inr t) vs ts \<longrightarrow>
            reply_text (sendCmd h (Answer st ph body) s) = comma_join ts
            \<and> reply_color (sendCmd h (Answer st ph body) s) = accent s)
       \<and> (\<forall>v e. reply_field body = Some v \<and> v \<noteq> JNull \<and> to_string h v = Inl e \<longrightarrow>
            reply_text (sendCmd h (Answer st ph body) s)
              = utf16 ''Network error: '' @ message_or_error (type_error (to_primitive_message h))
            \<and> reply_color (sendCmd h (Answer st ph body) s) = error_color)
       \<and> reply_text (sendCmd h (Answer 200 ph (utf16 ''{\"reply\": \"Hello\"}'')) s) = utf16 ''Hello''
       \<and> JSON_parse (utf16 ''ok'') = None
       \<and> reply_text (sendCmd h (Answer 200 ph (utf16 ''ok'')) s) = utf16 ''ok''
       \<and> reply_text (sendCmd h (Answer 200 ph (utf16 ''{\"reply\": [true, null, \"a\", {}]}'')) s)
            = utf16 ''true,,a,[object Object]''"
proof -
  note nb = assms(1)
  note shown = success_shown [OF nb]
  note failed = success_failed [OF nb]
  have raw: "reply_field body = None \<or> reply_field body = Some JNull \<longrightarrow>
            reply_text (sendCmd h (Answer st ph body) s) = body
            \<and> reply_color (sendCmd h (Answer st ph body) s) = accent s"
    using success_raw [OF assms] by blast
  have unparsed: "JSON_parse body = None \<longrightarrow> reply_text (sendCmd h (Answer st ph body) s) = body"
    using raw by (simp add: reply_field_unparsed)
  have str: "\<forall>t. reply_field body = Some (JStr t) \<longrightarrow>
            reply_text (sendCmd h (Answer st ph body) s) = t
            \<and> reply_color (sendCmd h (Answer st ph body) s) = accent s"
    using shown [OF assms(2), of body "JStr _"] by simp
  have bool: "\<forall>b. reply_field body = Some (JBool b) \<longrightarrow>
            reply_text (sendCmd h (Answer st ph body) s) = (if b then utf16 ''true'' else utf16 ''false'')
            \<and> reply_color (sendCmd h (Answer st ph body) s) = accent s"
    using shown [OF assms(2), of body "JBool _"] by simp
  have num: "\<forall>n. reply_field body = Some (JNum n) \<longrightarrow>
            reply_text (sendCmd h (Answer st ph body) s) = number_text h n
            \<and> reply_color (sendCmd h (Answer st ph body) s) = accent s"
    using shown [OF assms(2), of body "JNum _"] by simp
  have obj: "\<forall>ms. reply_field body = Some (JObj ms) \<and> map_of ms (utf16 ''toString'') = None \<longrightarrow>
            reply_text (sendCmd h (Answer st ph body) s) = utf16 ''[object Object]''
            \<and> reply_color (sendCmd h (Answer st ph body) s) = accent s"
    using shown [OF assms(2), of body "JObj _"] by simp
  have obj_own: "\<forall>ms. reply_field body = Some (JObj ms) \<and> map_of ms (utf16 ''toString'') \<noteq> None \<longrightarrow>
            reply_text (sendCmd h (Answer st ph body) s)
              = utf16 ''Network error: '' @ message_or_error (type_error (to_primitive_message h))
            \<and> reply_color (sendCmd h (Answer st ph body) s) = error_color"
    using failed [OF assms(2), of body "JObj _"] by simp
  have arr: "\<forall>vs ts. reply_field body = Some (JArr vs)
              \<and> list_all2 (\<lambda>v t. if v = JNull then t = [] else to_string h v = Inr t) vs ts \<longrightarrow>
            reply_text (sendCmd h (Answer st ph body) s) = comma_join ts
            \<and> reply_color (sendCmd h (Answer st ph body) s) = accent s"
    using shown [OF assms(2), of body "JArr _"] to_string_array by blast
  have thrown: "\<forall>v e. reply_field body = Some v \<and> v \<noteq> JNull \<and> to_string h v = Inl e \<longrightarrow>
            reply_text (sendCmd h (Answer st ph body) s)
              = utf16 ''Network error: '' @ message_or_error (type_error (to_primitive_message h))
            \<and> reply_color (sendCmd h (Answer st ph body) s) = error_color"
    using failed [OF assms(2)] by blast
  have hello: "reply_text (sendCmd h (Answer 200 ph (utf16 ''{\"reply\": \"Hello\"}'')) s) = utf16 ''Hello''"
    using shown [OF response_ok_200 reply_field_hello, of h "utf16 ''Hello''"] by simp
  have ok: "reply_text (sendCmd h (Answer 200 ph (utf16 ''ok'')) s) = utf16 ''ok''"
    using success_raw [OF nb response_ok_200, of "utf16 ''ok''"]
    by (simp add: reply_field_unparsed parse_ok)
  have l2: "list_all2 (\<lambda>v t. if v = JNull then t = [] else to_string h v = Inr t)
              [JBool True, JNull, JStr (utf16 ''a''), JObj []]
              [utf16 ''true'', [], utf16 ''a'', utf16 ''[object Object]'']"
    by simp
  have list: "reply_text (sendCmd h (Answer 200 ph (utf16 ''{\"reply\": [true, null, \"a\", {}]}'')) s)
            = utf16 ''true,,a,[object Object]''"
  proof -
    have "reply_text (sendCmd h (Answer 200 ph (utf16 ''{\"reply\": [true, null, \"a\", {}]}'')) s)
            = comma_join [utf16 ''true'', [], utf16 ''a'', utf16 ''[object Object]'']
        \<and> reply_color (sendCmd h (Answer 200 ph (utf16 ''{\"reply\": [true, null, \"a\", {}]}'')) s)
            = accent s"
      by (rule shown [OF response_ok_200 reply_field_list _ to_string_array [OF l2]]) simp
    then show ?thesis
      unfolding comma_join_sample by (rule conjunct1)
  qed
  show ?thesis
    using raw unparsed str bool num obj obj_own arr thrown hello ok parse_ok list
    by (intro conjI)
qed

theorem success_reply_display_witness:
  "trim (input_value sample_page) \<noteq> [] \<and> response_ok 200
   \<and> reply_field (utf16 ''{\"reply\": \"Hello\"}'') = Some (JStr (utf16 ''Hello''))
   \<and> reply_text (sendCmd sample_host (Answer 200 (utf16 ''OK'') (utf16 ''{\"reply\": \"Hello\"}''))
         sample_page) = utf16 ''Hello''
   \<and> reply_field (utf16 ''ok'') = None
   \<and> reply_text (sendCmd sample_host (Answer 200 (utf16 ''OK'') (utf16 ''ok'')) sample_page)
       = utf16 ''ok''"
proof -
  have n: "reply_field (utf16 ''ok'') = None"
    by (simp add: reply_field_unparsed parse_ok)
  show ?thesis
    using success_reply_display [OF sample_nonblank response_ok_200,
        of "utf16 ''{\"reply\": \"Hello\"}''" sample_host "utf16 ''OK''"]
      success_reply_display [OF sample_nonblank response_ok_200,
        of "utf16 ''ok''" sample_host "utf16 ''OK''"]
      sample_nonblank response_ok_200 reply_field_hello n
    by blast
qed

text \<open>
  C2.  The run the claim is about: status 200 and an empty body.  The body text is the
  empty string, which is a string and so never falls through \<open>??\<close> to the placeholder:
  the reply area is left empty.
\<close>

theorem empty_body_display:
  "reply_text (sendCmd sample_host (Answer 200 (utf16 ''OK'') []) sample_page) = []
   \<and> reply_text (sendCmd sample_host (Answer 200 (utf16 ''OK'') []) sample_page) \<noteq> utf16 ''(no reply)''"
  by (simp add: sendCmd_nonblank [OF sample_nonblank] ok_absent response_ok_200 reply_field_empty
      finally_fields reply_text_showReply utf16_def)

text \<open>
  C4, as stated, fails: a response with status 500 whose \<open>reply\<close> member is an object
  with a member of its own named \<open>toString\<close> shows \<open>Network error:\<close> and the message of
  the TypeError; the status code is not in the text.
\<close>

theorem failure_unconvertible_reply:
  "\<not> response_ok 500
   \<and> reply_field (utf16 ''{\"reply\":{\"toString\":\"x\"}}'')
       = Some (JObj [(utf16 ''toString'', JStr (utf16 ''x''))])
   \<and> reply_text (sendCmd sample_host (Answer 500 (utf16 ''Internal Server Error'')
         (utf16 ''{\"reply\":{\"toString\":\"x\"}}'')) sample_page)
       = utf16 ''Network error: Cannot convert object to primitive value''
   \<and> \<not> sublist (utf16 ''500'')
         (reply_text (sendCmd sample_host (Answer 500 (utf16 ''Internal Server Error'')
            (utf16 ''{\"reply\":{\"toString\":\"x\"}}'')) sample_page))"
proof -
  let ?shown = "sendCmd sample_host (Answer 500 (utf16 ''Internal Server Error'')
         (utf16 ''{\"reply\":{\"toString\":\"x\"}}'')) sample_page"
  have c: "to_string sample_host (JObj [(utf16 ''toString'', JStr (utf16 ''x''))])
             = Inl (type_error (to_primitive_message sample_host))"
    by simp
  have m: "message_or_error (type_error (to_primitive_message sample_host))
             = utf16 ''Cannot convert object to primitive value''"
    by (simp add: message_or_error_def type_error_def sample_host_def utf16_def)
  have "reply_text ?shown = utf16 ''Network error: '' @ utf16 ''Cannot convert object to primitive value''"
    using failure_failed [OF sample_nonblank not_ok_500 reply_field_object _ c] m by simp
  moreover have "utf16 ''Network error: '' @ utf16 ''Cannot convert object to primitive value''
             = utf16 ''Network error: Cannot convert object to primitive value''"
    by (simp add: utf16_def)
  ultimately have t: "reply_text ?shown = utf16 ''Network error: Cannot convert object to primitive value''"
    by simp
  have "0x35 \<notin> set (utf16 ''Network error: Cannot convert object to primitive value'')"
    by (simp add: utf16_def)
  moreover have "0x35 \<in> set (utf16 ''500'')"
    by (simp add: utf16_def)
  ultimately have n: "\<not> sublist (utf16 ''500'') (utf16 ''Network error: Cannot convert object to primitive value'')"
    using set_mono_sublist by blast
  show ?thesis
    using t n reply_field_object not_ok_500 by simp
qed

text \<open>
  C4, amended.  A submission that got a response with a status outside 2xx shows, in the
  error colour, \<open>Server error\<close>, the status code in decimal (the digits that denote it,
  without a leading zero), a colon, and then the first of these that counts as true: the
  \<open>reply\<close> member of the parsed body as text, the raw body text, the status phrase.
  When the \<open>reply\<close> member counts as true and has no text, it shows instead
  \<open>Network error:\<close> and the message of the TypeError.  Status 500 with the body
  \<open>{"reply": "boom"}\<close> shows \<open>Server error 500: boom\<close>, which contains \<open>500\<close> and
  \<open>boom\<close>; status 404 with an empty body shows the status phrase.
\<close>

theorem failure_reply_display:
  assumes "trim (input_value s) \<noteq> []" and "\<not> response_ok st"
  shows "(\<forall>t. reply_field body = Some (JStr t) \<and> t \<noteq> [] \<longrightarrow>
            reply_text (sendCmd h (Answer st ph body) s)
              = utf16 ''Server error '' @ decimal st @ utf16 '': '' @ t)
       \<and> (reply_field body = Some (JBool True) \<longrightarrow>
            reply_text (sendCmd h (Answer st ph body) s)
              = utf16 ''Server error '' @ decimal st @ utf16 '': true'')
       \<and> (\<forall>n. reply_field body = Some (JNum n) \<and> number_truthy h n \<longrightarrow>
            reply_text (sendCmd h (Answer st ph body) s)
              = utf16 ''Server error '' @ decimal st @ utf16 '': '' @ number_text h n)
       \<and> (\<forall>ms. reply_field body = Some (JObj ms) \<and> map_of ms (utf16 ''toString'') = None \<longrightarrow>
            reply_text (sendCmd h (Answer st ph body) s)
              = utf16 ''Server error '' @ decimal st @ utf16 '': [object Object]'')
       \<and> (\<forall>ms. reply_field body = Some (JObj ms) \<and> map_of ms (utf16 ''toString'') \<noteq> None \<longrightarrow>
            reply_text (sendCmd h (Answer st ph body) s)
              = utf16 ''Network error: '' @ message_or_error (type_error (to_primitive_message h)))
       \<and> (\<forall>vs ts. reply_field body = Some (JArr vs)
              \<and> list_all2 (\<lambda>v t. if v = JNull then t = [] else to_string h v = Inr t) vs ts \<longrightarrow>
            reply_text (sendCmd h (Answer st ph body) s)
              = utf16 ''Server error '' @ decimal st @ utf16 '': '' @ comma_join ts)
       \<and> (\<forall>v e. reply_field body = Some v \<and> truthy h (Some v) \<and> to_string h v = Inl e \<longrightarrow>
            reply_text (sendCmd h (Answer st ph body) s)
              = utf16 ''Network error: '' @ message_or_error (type_error (to_primitive_message h)))
       \<and> ((reply_field body = None \<or> reply_field body = Some JNull
             \<or> reply_field body = Some (JBool False) \<or> reply_field body = Some (JStr [])
             \<or> (\<exists>n. reply_field body = Some (JNum n) \<and> \<not> number_truthy h n)) \<longrightarrow>
            reply_text (sendCmd h (Answer st ph body) s)
              = utf16 ''Server error '' @ decimal st @ utf16 '': '' @ (if body \<noteq> [] then body else ph))
       \<and> reply_color (sendCmd h (Answer st ph body) s) = error_color
       \<and> digits_value (decimal st) = st \<and> list_all is_digit (decimal st) \<and> decimal st \<noteq> []
       \<and> (0 < st \<longrightarrow> hd (decimal st) \<noteq> 0x30)
       \<and> reply_text (sendCmd h (Answer 500 ph (utf16 ''{\"reply\": \"boom\"}'')) s)
            = utf16 ''Server error 500: boom''
       \<and> sublist (utf16 ''500'') (reply_text (sendCmd h (Answer 500 ph (utf16 ''{\"reply\": \"boom\"}'')) s))
       \<and> sublist (utf16 ''boom'') (reply_text (sendCmd h (Answer 500 ph (utf16 ''{\"reply\": \"boom\"}'')) s))
       \<and> reply_text (sendCmd h (Answer 404 (utf16 ''Not Found'') []) s)
            = utf16 ''Server error 404: Not Found''"
proof -
  note nb = assms(1)
  note shown = failure_shown [OF assms]
  note failed = failure_failed [OF assms]
  have str: "\<forall>t. reply_field body = Some (JStr t) \<and> t \<noteq> [] \<longrightarrow>
            reply_text (sendCmd h (Answer st ph body) s)
              = utf16 ''Server error '' @ decimal st @ utf16 '': '' @ t"
    using shown [of body "JStr _"] by simp
  have bool: "reply_field body = Some (JBool True) \<longrightarrow>
            reply_text (sendCmd h (Answer st ph body) s)
              = utf16 ''Server error '' @ decimal st @ utf16 '': true''"
    using shown [of body "JBool True" h "utf16 ''true''"] by (simp add: utf16_def)
  have num: "\<forall>n. reply_field body = Some (JNum n) \<and> number_truthy h n \<longrightarrow>
            reply_text (sendCmd h (Answer st ph body) s)
              = utf16 ''Server error '' @ decimal st @ utf16 '': '' @ number_text h n"
    using shown [of body "JNum _"] by simp
  have obj: "\<forall>ms. reply_field body = Some (JObj ms) \<and> map_of ms (utf16 ''toString'') = None \<longrightarrow>
            reply_text (sendCmd h (Answer st ph body) s)
              = utf16 ''Server error '' @ decimal st @ utf16 '': [object Object]''"
    using shown [of body "JObj _" h "utf16 ''[object Object]''"] by (simp add: utf16_def)
  have obj_own: "\<forall>ms. reply_field body = Some (JObj ms) \<and> map_of ms (utf16 ''toString'') \<noteq> None \<longrightarrow>
            reply_text (sendCmd h (Answer st ph body) s)
              = utf16 ''Network error: '' @ message_or_error (type_error (to_primitive_message h))"
    using failed [of body "JObj _"] by simp
  have arr: "\<forall>vs ts. reply_field body = Some (JArr vs)
              \<and> list_all2 (\<lambda>v t. if v = JNull then t = [] else to_string h v = Inr t) vs ts \<longrightarrow>
            reply_text (sendCmd h (Answer st ph body) s)
              = utf16 ''Server error '' @ decimal st @ utf16 '': '' @ comma_join ts"
  proof (intro allI impI)
    fix vs ts
    assume a: "reply_field body = Some (JArr vs)
              \<and> list_all2 (\<lambda>v t. if v = JNull then t = [] else to_string h v = Inr t) vs ts"
    then have l: "list_all2 (\<lambda>v t. if v = JNull then t = [] else to_string h v = Inr t) vs ts"
      and r: "reply_field body = Some (JArr vs)"
      by simp_all
    have t: "truthy h (Some (JArr vs))"
      by simp
    show "reply_text (sendCmd h (Answer st ph body) s)
              = utf16 ''Server error '' @ decimal st @ utf16 '': '' @ comma_join ts"
      by (rule shown [OF r t to_string_array [OF l]])
  qed
  have thrown: "\<forall>v e. reply_field body = Some v \<and> truthy h (Some v) \<and> to_string h v = Inl e \<longrightarrow>
            reply_text (sendCmd h (Answer st ph body) s)
              = utf16 ''Network error: '' @ message_or_error (type_error (to_primitive_message h))"
    using failed by blast
  have falsy: "(reply_field body = None \<or> reply_field body = Some JNull
             \<or> reply_field body = Some (JBool False) \<or> reply_field body = Some (JStr [])
             \<or> (\<exists>n. reply_field body = Some (JNum n) \<and> \<not> number_truthy h n)) \<longrightarrow>
            reply_text (sendCmd h (Answer st ph body) s)
              = utf16 ''Server error '' @ decimal st @ utf16 '': '' @ (if body \<noteq> [] then body else ph)"
    using failure_raw [OF assms, of h body ph] unfolding falsy_cases by blast
  have colour: "reply_color (sendCmd h (Answer st ph body) s) = error_color"
    using assms by (rule failure_colour)
  have d1: "digits_value (decimal st) = st"
    by (rule digits_value_decimal)
  have d2: "list_all is_digit (decimal st)"
    by (rule digits_decimal)
  have d3: "decimal st \<noteq> []"
    by (rule decimal_not_Nil)
  have d4: "0 < st \<longrightarrow> hd (decimal st) \<noteq> 0x30"
    by (simp add: hd_decimal)
  have boom: "reply_text (sendCmd h (Answer 500 ph (utf16 ''{\"reply\": \"boom\"}'')) s)
      = utf16 ''Server error 500: boom''"
    using failure_shown [OF nb not_ok_500 reply_field_boom, of h "utf16 ''boom''" ph]
    by (simp add: decimal_500 utf16_def)
  have split: "utf16 ''Server error 500: boom''
                 = utf16 ''Server error '' @ utf16 ''500'' @ utf16 '': '' @ utf16 ''boom'' @ []"
    by (simp add: utf16_def)
  have in1: "sublist (utf16 ''500'') (utf16 ''Server error 500: boom'')"
    unfolding split by (rule sublist_appendI)
  have "sublist (utf16 ''boom'') ((utf16 ''Server error '' @ utf16 ''500'' @ utf16 '': '') @ utf16 ''boom'' @ [])"
    by (rule sublist_appendI)
  then have in2: "sublist (utf16 ''boom'') (utf16 ''Server error 500: boom'')"
    unfolding split by simp
  have in1': "sublist (utf16 ''500'') (reply_text (sendCmd h (Answer 500 ph (utf16 ''{\"reply\": \"boom\"}'')) s))"
    using in1 boom by simp
  have in2': "sublist (utf16 ''boom'') (reply_text (sendCmd h (Answer 500 ph (utf16 ''{\"reply\": \"boom\"}'')) s))"
    using in2 boom by simp
  have "\<not> truthy h (reply_field [])"
    by (simp add: reply_field_empty)
  then have missing: "reply_text (sendCmd h (Answer 404 (utf16 ''Not Found'') []) s)
      = utf16 ''Server error 404: Not Found''"
    using failure_raw [OF nb not_ok_404, of h "[]" "utf16 ''Not Found''"]
    by (simp add: decimal_404 utf16_def)
  show ?thesis
    using str bool num obj obj_own arr thrown falsy colour d1 d2 d3 d4 boom in1' in2' missing
    by (intro conjI)
qed

theorem failure_reply_display_witness:
  "trim (input_value sample_page) \<noteq> [] \<and> \<not> response_ok 500
   \<and> reply_field [] = None
   \<and> reply_text (sendCmd sample_host (Answer 500 (utf16 ''Internal Server Error'') []) sample_page)
       = utf16 ''Server error 500: Internal Server Error''
   \<and> reply_color (sendCmd sample_host (Answer 500 (utf16 ''Internal Server Error'') []) sample_page)
       = error_color
   \<and> reply_field (utf16 ''{\"reply\": \"boom\"}'') = Some (JStr (utf16 ''boom''))
   \<and> reply_text (sendCmd sample_host (Answer 500 (utf16 ''Internal Server Error'')
         (utf16 ''{\"reply\": \"boom\"}'')) sample_page) = utf16 ''Server error 500: boom''"
proof -
  let ?ph = "utf16 ''Internal Server Error''"
  have a: "reply_text (sendCmd sample_host (Answer 500 ?ph []) sample_page)
       = utf16 ''Server error '' @ decimal 500 @ utf16 '': '' @ (if ([] :: jstring) \<noteq> [] then [] else ?ph)
   \<and> reply_color (sendCmd sample_host (Answer 500 ?ph []) sample_page) = error_color"
    using failure_reply_display [OF sample_nonblank not_ok_500, of "[]" sample_host ?ph]
      reply_field_empty
    by blast
  have b: "reply_text (sendCmd sample_host (Answer 500 ?ph (utf16 ''{\"reply\": \"boom\"}'')) sample_page)
       = utf16 ''Server error 500: boom''"
    using failure_reply_display [OF sample_nonblank not_ok_500, of "utf16 ''{\"reply\": \"boom\"}''"
        sample_host ?ph]
    by blast
  have t: "utf16 ''Server error '' @ decimal 500 @ utf16 '': '' @ ?ph
             = utf16 ''Server error 500: Internal Server Error''"
    by (simp add: decimal_500 utf16_def)
  show ?thesis
    using a b sample_nonblank not_ok_500 reply_field_empty reply_field_boom
    by (simp add: t)
qed

section \<open>Network failure\<close>

text \<open>
  C5.  When \<open>fetch\<close> rejects (or the body cannot be read), the reply area shows, as an
  error, \<open>Network error:\<close> followed by the message of the failure (by the failure
  converted to text when its message is empty).  The text contains \<open>Network error\<close> and
  the message; a rejection with the message \<open>Failed to fetch\<close> shows
  \<open>Network error: Failed to fetch\<close>.
\<close>

theorem network_failure_display:
  assumes "trim (input_value s) \<noteq> []"
  shows "reply_text (sendCmd h (NoResponse e) s) = utf16 ''Network error: '' @ message_or_error e
       \<and> reply_color (sendCmd h (NoResponse e) s) = error_color
       \<and> (err_message e \<noteq> [] \<longrightarrow>
            reply_text (sendCmd h (NoResponse e) s) = utf16 ''Network error: '' @ err_message e)
       \<and> sublist (utf16 ''Network error'') (reply_text (sendCmd h (NoResponse e) s))
       \<and> sublist (err_message e) (reply_text (sendCmd h (NoResponse e) s))
       \<and> reply_text (sendCmd h (NoBody st ph e) s) = reply_text (sendCmd h (NoResponse e) s)
       \<and> reply_color (sendCmd h (NoBody st ph e) s) = error_color
       \<and> reply_text (sendCmd h (NoResponse (JsError (utf16 ''TypeError'') (utf16 ''Failed to fetch''))) s)
            = utf16 ''Network error: Failed to fetch''"
proof -
  have shown: "reply_text (sendCmd h (NoResponse d) s) = utf16 ''Network error: '' @ message_or_error d"
    for d
    using assms
    by (simp add: sendCmd_nonblank settle_no_response finally_fields reply_text_showReply)
  have colour: "reply_color (sendCmd h (NoResponse e) s) = error_color"
    using assms
    by (simp add: sendCmd_nonblank settle_no_response finally_fields reply_color_showReply)
  have body: "reply_text (sendCmd h (NoBody st ph e) s) = utf16 ''Network error: '' @ message_or_error e
      \<and> reply_color (sendCmd h (NoBody st ph e) s) = error_color"
    using assms
    by (simp add: sendCmd_nonblank settle_no_body finally_fields reply_text_showReply
        reply_color_showReply)
  have fetch: "reply_text (sendCmd h (NoResponse (JsError (utf16 ''TypeError'') (utf16 ''Failed to fetch''))) s)
      = utf16 ''Network error: Failed to fetch''"
    by (simp add: shown message_or_error_def utf16_def)
  show ?thesis
    using colour body fetch
    by (simp add: shown sublist_message sublist_network_error message_or_error_def)
qed

theorem network_failure_display_witness:
  "trim (input_value sample_page) \<noteq> []
   \<and> reply_text (sendCmd sample_host (NoResponse (JsError (utf16 ''TypeError'') (utf16 ''Failed to fetch'')))
        sample_page) = utf16 ''Network error: Failed to fetch''
   \<and> reply_color (sendCmd sample_host (NoResponse (JsError (utf16 ''TypeError'') (utf16 ''Failed to fetch'')))
        sample_page) = error_color"
  using network_failure_display [OF sample_nonblank, of sample_host
      "JsError (utf16 ''TypeError'') (utf16 ''Failed to fetch'')" 0 "[]"] sample_nonblank
  by blast

section \<open>Validation\<close>

text \<open>
  C3.  When the input is empty or holds white space only, \<open>sendCmd\<close> calls \<open>fetch\<close>
  not at all and shows \<open>Please type a command.\<close> in the error colour; neither a key press
  nor a click adds a waiting request.
\<close>

theorem blank_command_refused:
  assumes "list_all is_js_space (input_value s)"
  shows "fetches (sendCmd h x s) = fetches s
       \<and> reply_text (sendCmd h x s) = utf16 ''Please type a command.''
       \<and> reply_color (sendCmd h x s) = error_color
       \<and> send_disabled (sendCmd h x s) = send_disabled s
       \<and> pending (step h (KeyDown (utf16 ''Enter'')) \<lparr>dom = s, pending = ts\<rparr>) = ts
       \<and> fetches (dom (step h (KeyDown (utf16 ''Enter'')) \<lparr>dom = s, pending = ts\<rparr>)) = fetches s
       \<and> pending (step h ClickSend \<lparr>dom = s, pending = ts\<rparr>) = ts
       \<and> fetches (dom (step h ClickSend \<lparr>dom = s, pending = ts\<rparr>)) = fetches s"
proof -
  have "trim (input_value s) = []"
    using assms by (simp add: trim_Nil_iff)
  then show ?thesis
    by (simp add: sendCmd_blank call_sendCmd_blank sendCmd_refuse_def fetches_showReply
        reply_text_showReply reply_color_showReply send_disabled_showReply)
qed

theorem blank_command_refused_witness:
  "list_all is_js_space (utf16 ''  '')
   \<and> fetches (sendCmd sample_host (NoResponse (JsError [] [])) (sample_page\<lparr>input_value := utf16 ''  ''\<rparr>)) = []
   \<and> reply_text (sendCmd sample_host (NoResponse (JsError [] [])) (sample_page\<lparr>input_value := utf16 ''  ''\<rparr>))
       = utf16 ''Please type a command.''"
proof -
  have b: "list_all is_js_space (input_value (sample_page\<lparr>input_value := utf16 ''  ''\<rparr>))"
    by (simp add: utf16_def is_js_space_def)
  show ?thesis
    using blank_command_refused [OF b, of sample_host "NoResponse (JsError [] [])"] b
    by (simp add: sample_page_def)
qed

section \<open>The submit control\<close>

text \<open>
  C6.  However the request ends (a response with any status, a body that cannot be
  read, a rejected fetch, a conversion that throws inside the \<open>try\<close> block), \<open>send-btn\<close>
  is enabled once \<open>sendCmd\<close> is through; in the event loop, a turn that takes a command
  request out of flight leaves the button enabled.
\<close>

theorem submit_reenabled:
  "send_disabled (sendCmd_settle h x s) = False
   \<and> (trim (input_value s) \<noteq> [] \<longrightarrow> send_disabled (sendCmd h x s) = False)
   \<and> (commands_in_flight (step h e w) < commands_in_flight w \<longrightarrow>
        send_disabled (dom (step h e w)) = False)"
  by (simp add: send_disabled_settle sendCmd_nonblank step_completion)

theorem submit_reenabled_witness:
  "trim (input_value sample_page) \<noteq> []
   \<and> send_disabled (sendCmd sample_host (Answer 200 (utf16 ''OK'') []) sample_page) = False
   \<and> commands_in_flight (step sample_host (BodySettled 0 (Fulfilled [])) sample_waiting)
       < commands_in_flight sample_waiting
   \<and> send_disabled (dom sample_waiting)
   \<and> send_disabled (dom (step sample_host (BodySettled 0 (Fulfilled [])) sample_waiting)) = False"
proof -
  have "send_disabled (dom sample_waiting)"
    by (simp add: sample_waiting_def)
  then show ?thesis
    using submit_reenabled [of sample_host "Answer 200 (utf16 ''OK'') []" sample_page
        "BodySettled 0 (Fulfilled [])" sample_waiting] sample_nonblank waiting_done
    by blast
qed




section \<open>The launch listener\<close>

text \<open>
  C8, as stated, fails: a \<open>status\<close> member that is there but counts as false, such as
  \<open>false\<close>, is not shown; the default is.
\<close>

theorem launch_falsy_status:
  "status_field (utf16 ''{\"status\":false}'') = Some (JBool False)
   \<and> to_string sample_host (JBool False) = Inr (utf16 ''false'')
   \<and> reply_text (launch sample_host (Answer 200 (utf16 ''OK'') (utf16 ''{\"status\":false}'')) sample_page)
       = utf16 ''Launch issued''
   \<and> reply_text (launch sample_host (Answer 200 (utf16 ''OK'') (utf16 ''{\"status\":false}'')) sample_page)
       \<noteq> utf16 ''false''"
proof -
  have f: "\<not> truthy sample_host (status_field (utf16 ''{\"status\":false}''))"
    by (simp add: status_field_false)
  have t: "reply_text (launch sample_host (Answer 200 (utf16 ''OK'') (utf16 ''{\"status\":false}'')) sample_page)
       = utf16 ''Launch issued''"
    using launch_status_default [OF parse_status_false _ f, of 200 "utf16 ''OK''" sample_page]
    by simp
  have d: "utf16 ''Launch issued'' \<noteq> utf16 ''false''"
    by (simp add: utf16_def)
  show ?thesis
    using t d status_field_false by simp
qed

text \<open>
  C8, amended.  The launch listener calls \<open>fetch\<close> once, a POST to \<open>/api/launch\<close> with
  no body.  When the body parses to a JSON value other than \<open>null\<close> it shows the
  \<open>status\<close> member as text if that counts as true, else \<open>Launch issued\<close>, in the accent
  colour.  It shows, in the error colour, \<open>Launch failed:\<close> and the message of the failure
  when the fetch rejects, the body cannot be read, the body is not JSON, the body is
  \<open>null\<close>, or the \<open>status\<close> member has no text.
\<close>

theorem launch_status_display:
  "fetches (launch h x s) = fetches s @ [launch_request]
   \<and> url launch_request = utf16 ''/api/launch''
   \<and> http_method launch_request = utf16 ''POST''
   \<and> payload launch_request = None
   \<and> (\<forall>t. status_field b = Some (JStr t) \<and> t \<noteq> [] \<longrightarrow>
         reply_text (launch h (Answer st ph b) s) = t
         \<and> reply_color (launch h (Answer st ph b) s) = accent s)
   \<and> (status_field b = Some (JBool True) \<longrightarrow>
         reply_text (launch h (Answer st ph b) s) = utf16 ''true''
         \<and> reply_color (launch h (Answer st ph b) s) = accent s)
   \<and> (\<forall>n. status_field b = Some (JNum n) \<and> number_truthy h n \<longrightarrow>
         reply_text (launch h (Answer st ph b) s) = number_text h n
         \<and> reply_color (launch h (Answer st ph b) s) = accent s)
   \<and> (\<forall>ms. status_field b = Some (JObj ms) \<and> map_of ms (utf16 ''toString'') = None \<longrightarrow>
         reply_text (launch h (Answer st ph b) s) = utf16 ''[object Object]''
         \<and> reply_color (launch h (Answer st ph b) s) = accent s)
   \<and> (\<forall>ms. status_field b = Some (JObj ms) \<and> map_of ms (utf16 ''toString'') \<noteq> None \<longrightarrow>
         reply_text (launch h (Answer st ph b) s)
           = utf16 ''Launch failed: '' @ message_or_error (type_error (to_primitive_message h))
         \<and> reply_color (launch h (Answer st ph b) s) = error_color)
   \<and> (\<forall>vs ts. status_field b = Some (JArr vs)
           \<and> list_all2 (\<lambda>v t. if v = JNull then t = [] else to_string h v = Inr t) vs ts \<longrightarrow>
         reply_text (launch h (Answer st ph b) s) = comma_join ts
         \<and> reply_color (launch h (Answer st ph b) s) = accent s)
   \<and> (\<forall>v e. status_field b = Some v \<and> truthy h (Some v) \<and> to_string h v = Inl e \<longrightarrow>
         reply_text (launch h (Answer st ph b) s)
           = utf16 ''Launch failed: '' @ message_or_error (type_error (to_primitive_message h))
         \<and> reply_color (launch h (Answer st ph b) s) = error_color)
   \<and> ((\<exists>j. JSON_parse b = Some j \<and> j \<noteq> JNull)
        \<and> (status_field b = None \<or> status_field b = Some JNull
            \<or> status_field b = Some (JBool False) \<or> status_field b = Some (JStr [])
            \<or> (\<exists>n. status_field b = Some (JNum n) \<and> \<not> number_truthy h n)) \<longrightarrow>
         reply_text (launch h (Answer st ph b) s) = utf16 ''Launch issued''
         \<and> reply_color (launch h (Answer st ph b) s) = accent s)
   \<and> (JSON_parse b = Some JNull \<longrightarrow>
         reply_text (launch h (Answer st ph b) s)
           = utf16 ''Launch failed: '' @ message_or_error (type_error (null_member_message h status_key))
         \<and> reply_color (launch h (Answer st ph b) s) = error_color)
   \<and> (JSON_parse b = None \<longrightarrow>
         reply_text (launch h (Answer st ph b) s)
           = utf16 ''Launch failed: '' @ message_or_error (syntax_error (syntax_message h b))
         \<and> reply_color (launch h (Answer st ph b) s) = error_color)
   \<and> reply_text (launch h (NoResponse e) s) = utf16 ''Launch failed: '' @ message_or_error e
   \<and> reply_color (launch h (NoResponse e) s) = error_color
   \<and> reply_text (launch h (NoBody st ph e) s) = utf16 ''Launch failed: '' @ message_or_error e
   \<and> reply_color (launch h (NoBody st ph e) s) = error_color
   \<and> reply_text (launch h (Answer st ph (utf16 ''{\"status\":\"up\"}'')) s) = utf16 ''up''"
proof -
  note shown = launch_status_shown [of b _ h _ st ph s]
  note thrown = launch_status_thrown [of b _ h _ st ph s]
  have f1: "fetches (launch h x s) = fetches s @ [launch_request]"
    by (rule fetches_launch)
  have f2: "url launch_request = utf16 ''/api/launch''"
    and f3: "http_method launch_request = utf16 ''POST''"
    and f4: "payload launch_request = None"
    by (simp_all add: launch_request_def)
  have str: "\<forall>t. status_field b = Some (JStr t) \<and> t \<noteq> [] \<longrightarrow>
         reply_text (launch h (Answer st ph b) s) = t
         \<and> reply_color (launch h (Answer st ph b) s) = accent s"
    using shown [of "JStr _"] by simp
  have bool: "status_field b = Some (JBool True) \<longrightarrow>
         reply_text (launch h (Answer st ph b) s) = utf16 ''true''
         \<and> reply_color (launch h (Answer st ph b) s) = accent s"
    using shown [of "JBool True" "utf16 ''true''"] by simp
  have num: "\<forall>n. status_field b = Some (JNum n) \<and> number_truthy h n \<longrightarrow>
         reply_text (launch h (Answer st ph b) s) = number_text h n
         \<and> reply_color (launch h (Answer st ph b) s) = accent s"
    using shown [of "JNum _"] by simp
  have obj: "\<forall>ms. status_field b = Some (JObj ms) \<and> map_of ms (utf16 ''toString'') = None \<longrightarrow>
         reply_text (launch h (Answer st ph b) s) = utf16 ''[object Object]''
         \<and> reply_color (launch h (Answer st ph b) s) = accent s"
    using shown [of "JObj _" "utf16 ''[object Object]''"] by simp
  have obj_own: "\<forall>ms. status_field b = Some (JObj ms) \<and> map_of ms (utf16 ''toString'') \<noteq> None \<longrightarrow>
         reply_text (launch h (Answer st ph b) s)
           = utf16 ''Launch failed: '' @ message_or_error (type_error (to_primitive_message h))
         \<and> reply_color (launch h (Answer st ph b) s) = error_color"
    using thrown [of "JObj _"] by simp
  have arr: "\<forall>vs ts. status_field b = Some (JArr vs)
           \<and> list_all2 (\<lambda>v t. if v = JNull then t = [] else to_string h v = Inr t) vs ts \<longrightarrow>
         reply_text (launch h (Answer st ph b) s) = comma_join ts
         \<and> reply_color (launch h (Answer st ph b) s) = accent s"
  proof (intro allI impI)
    fix vs ts
    assume "status_field b = Some (JArr vs)
           \<and> list_all2 (\<lambda>v t. if v = JNull then t = [] else to_string h v = Inr t) vs ts"
    then have l: "list_all2 (\<lambda>v t. if v = JNull then t = [] else to_string h v = Inr t) vs ts"
      and r: "status_field b = Some (JArr vs)"
      by simp_all
    have t: "truthy h (Some (JArr vs))"
      by simp
    show "reply_text (launch h (Answer st ph b) s) = comma_join ts
         \<and> reply_color (launch h (Answer st ph b) s) = accent s"
      by (rule launch_status_shown [OF r t to_string_array [OF l]])
  qed
  have thr: "\<forall>v e. status_field b = Some v \<and> truthy h (Some v) \<and> to_string h v = Inl e \<longrightarrow>
         reply_text (launch h (Answer st ph b) s)
           = utf16 ''Launch failed: '' @ message_or_error (type_error (to_primitive_message h))
         \<and> reply_color (launch h (Answer st ph b) s) = error_color"
    using thrown by blast
  have falsy: "(\<exists>j. JSON_parse b = Some j \<and> j \<noteq> JNull)
        \<and> (status_field b = None \<or> status_field b = Some JNull
            \<or> status_field b = Some (JBool False) \<or> status_field b = Some (JStr [])
            \<or> (\<exists>n. status_field b = Some (JNum n) \<and> \<not> number_truthy h n)) \<longrightarrow>
         reply_text (launch h (Answer st ph b) s) = utf16 ''Launch issued''
         \<and> reply_color (launch h (Answer st ph b) s) = accent s"
    using launch_status_default [of b _ h st ph s] unfolding falsy_cases by blast
  have null: "JSON_parse b = Some JNull \<longrightarrow>
         reply_text (launch h (Answer st ph b) s)
           = utf16 ''Launch failed: '' @ message_or_error (type_error (null_member_message h status_key))
         \<and> reply_color (launch h (Answer st ph b) s) = error_color"
    by (simp add: launch_failed_null launch_catch_fields)
  have unparsed: "JSON_parse b = None \<longrightarrow>
         reply_text (launch h (Answer st ph b) s)
           = utf16 ''Launch failed: '' @ message_or_error (syntax_error (syntax_message h b))
         \<and> reply_color (launch h (Answer st ph b) s) = error_color"
    by (simp add: launch_failed_unparsed launch_catch_fields)
  have r1: "reply_text (launch h (NoResponse e) s) = utf16 ''Launch failed: '' @ message_or_error e"
    and r2: "reply_color (launch h (NoResponse e) s) = error_color"
    and r3: "reply_text (launch h (NoBody st ph e) s) = utf16 ''Launch failed: '' @ message_or_error e"
    and r4: "reply_color (launch h (NoBody st ph e) s) = error_color"
    by (simp_all add: launch_failed_fetch launch_catch_fields)
  have u: "truthy h (Some (JStr (utf16 ''up'')))"
    by (simp add: utf16_def)
  have up: "reply_text (launch h (Answer st ph (utf16 ''{\"status\":\"up\"}'')) s) = utf16 ''up''"
    using launch_status_shown [OF status_field_up u, of "utf16 ''up''" st ph s] by simp
  show ?thesis
    using f1 f2 f3 f4 str bool num obj obj_own arr thr falsy null unparsed r1 r2 r3 r4 up
    by (intro conjI)
qed

theorem launch_status_display_witness:
  "status_field (utf16 ''{\"status\":\"up\"}'') = Some (JStr (utf16 ''up''))
   \<and> utf16 ''up'' \<noteq> []
   \<and> reply_text (launch sample_host (Answer 200 (utf16 ''OK'') (utf16 ''{\"status\":\"up\"}'')) sample_page)
       = utf16 ''up''
   \<and> JSON_parse (utf16 ''ok'') = None
   \<and> reply_color (launch sample_host (Answer 200 (utf16 ''OK'') (utf16 ''ok'')) sample_page)
       = error_color
   \<and> JSON_parse (utf16 ''null'') = Some JNull
   \<and> reply_color (launch sample_host (Answer 200 (utf16 ''OK'') (utf16 ''null'')) sample_page)
       = error_color"
proof -
  have n: "utf16 ''up'' \<noteq> []"
    by (simp add: utf16_def)
  show ?thesis
    using launch_status_display [of sample_host "NoResponse (JsError [] [])" sample_page
        "utf16 ''{\"status\":\"up\"}''" 200 "utf16 ''OK''" "JsError [] []"]
      launch_status_display [of sample_host "NoResponse (JsError [] [])" sample_page
        "utf16 ''ok''" 200 "utf16 ''OK''" "JsError [] []"]
      launch_status_display [of sample_host "NoResponse (JsError [] [])" sample_page
        "utf16 ''null''" 200 "utf16 ''OK''" "JsError [] []"]
      status_field_up n parse_ok parse_null
    by blast
qed

text \<open>
  C10, as stated, fails: the body \<open>null\<close> parses as JSON, and reading \<open>status\<close> of
  \<open>null\<close> throws, so the error branch is reached with a body that is JSON.
\<close>

theorem launch_null_body_fails:
  "JSON_parse (utf16 ''null'') = Some JNull
   \<and> reply_color (launch sample_host (Answer 200 (utf16 ''OK'') (utf16 ''null'')) sample_page)
       = error_color
   \<and> reply_text (launch sample_host (Answer 200 (utf16 ''OK'') (utf16 ''null'')) sample_page)
       = utf16 ''Launch failed: Cannot read properties of null (reading ''
           @ [0x27] @ utf16 ''status'' @ [0x27] @ utf16 '')''
   \<and> reply_text (launch sample_host (Answer 200 (utf16 ''OK'') (utf16 ''null'')) sample_page)
       \<noteq> utf16 ''Launch issued''"
proof -
  let ?shown = "launch sample_host (Answer 200 (utf16 ''OK'') (utf16 ''null'')) sample_page"
  have l: "?shown = launch_catch (type_error (null_member_message sample_host status_key))
                      (launch_issue sample_page)"
    by (rule launch_failed_null [OF parse_null])
  have m: "message_or_error (type_error (null_member_message sample_host status_key))
             = utf16 ''Cannot read properties of null (reading '' @ [0x27] @ utf16 ''status''
                 @ [0x27] @ utf16 '')''"
    by (simp add: message_or_error_def type_error_def sample_host_def status_key_def utf16_def)
  have t: "reply_text ?shown
       = utf16 ''Launch failed: Cannot read properties of null (reading ''
           @ [0x27] @ utf16 ''status'' @ [0x27] @ utf16 '')''"
    unfolding l launch_catch_fields m by (simp add: utf16_def)
  have d: "utf16 ''Launch failed: Cannot read properties of null (reading ''
           @ [0x27] @ utf16 ''status'' @ [0x27] @ utf16 '')'' \<noteq> utf16 ''Launch issued''"
    by (simp add: utf16_def)
  have c: "reply_color ?shown = error_color"
    unfolding l by (rule launch_catch_fields)
  show ?thesis
    using parse_null c t d by simp
qed

text \<open>
  C10, amended.  The launch listener never looks at the HTTP status: with the same body,
  any two status lines give the same page.  A body that parses to a JSON value other
  than \<open>null\<close> shows the \<open>status\<close> member or \<open>Launch issued\<close>, not an error, unless
  the member has no text form.  The error branch is reached exactly when the fetch
  rejects, the body cannot be read, the body is not JSON, the body is \<open>null\<close>, or the
  \<open>status\<close> member cannot be converted to text.
\<close>

theorem launch_ignores_http_status:
  "launch h (Answer st ph b) s = launch h (Answer st' ph' b) s
   \<and> (\<forall>v t. status_field b = Some v \<and> truthy h (Some v) \<and> to_string h v = Inr t \<longrightarrow>
         reply_text (launch h (Answer st ph b) s) = t
         \<and> reply_color (launch h (Answer st ph b) s) \<noteq> error_color)
   \<and> (\<forall>j. JSON_parse b = Some j \<and> j \<noteq> JNull \<and> \<not> truthy h (status_field b) \<longrightarrow>
         reply_text (launch h (Answer st ph b) s) = utf16 ''Launch issued''
         \<and> reply_color (launch h (Answer st ph b) s) \<noteq> error_color)
   \<and> (reply_color (launch h (Answer st ph b) s) = error_color)
       = (JSON_parse b = None \<or> JSON_parse b = Some JNull
          \<or> (\<exists>v. status_field b = Some v \<and> truthy h (Some v) \<and> isl (to_string h v)))
   \<and> (JSON_parse b = None \<longrightarrow>
         reply_text (launch h (Answer st ph b) s)
           = utf16 ''Launch failed: '' @ message_or_error (syntax_error (syntax_message h b)))
   \<and> (JSON_parse b = Some JNull \<longrightarrow>
         reply_text (launch h (Answer st ph b) s)
           = utf16 ''Launch failed: ''
               @ message_or_error (type_error (null_member_message h status_key)))
   \<and> reply_color (launch h (NoResponse e) s) = error_color
   \<and> reply_color (launch h (NoBody st ph e) s) = error_color"
proof -
  have same: "launch h (Answer st ph b) s = launch h (Answer st' ph' b) s"
    by (simp add: launch_def launch_settle_def)
  have shown: "reply_text (launch h (Answer st ph b) s) = t
      \<and> reply_color (launch h (Answer st ph b) s) \<noteq> error_color"
    if "status_field b = Some v" "truthy h (Some v)" "to_string h v = Inr t" for v t
    using launch_shown_status [OF that, of st ph s] error_color_not_accent [of s]
    by (simp add: reply_text_showReply reply_color_showReply accent_launch_issue
        eq_commute [of "accent s"])
  have default: "reply_text (launch h (Answer st ph b) s) = utf16 ''Launch issued''
      \<and> reply_color (launch h (Answer st ph b) s) \<noteq> error_color"
    if "JSON_parse b = Some j" "j \<noteq> JNull" "\<not> truthy h (status_field b)" for j
    using launch_shown_default [OF that, of st ph s] error_color_not_accent [of s]
    by (simp add: reply_text_showReply reply_color_showReply accent_launch_issue
        eq_commute [of "accent s"])
  have unparsed: "reply_text (launch h (Answer st ph b) s)
        = utf16 ''Launch failed: '' @ message_or_error (syntax_error (syntax_message h b))"
    if "JSON_parse b = None"
    using that by (simp add: launch_failed_unparsed launch_catch_fields)
  have null: "reply_text (launch h (Answer st ph b) s)
        = utf16 ''Launch failed: '' @ message_or_error (type_error (null_member_message h status_key))"
    if "JSON_parse b = Some JNull"
    using that by (simp add: launch_failed_null launch_catch_fields)
  have rejected: "reply_color (launch h (NoResponse e) s) = error_color
      \<and> reply_color (launch h (NoBody st ph e) s) = error_color"
    by (simp add: launch_failed_fetch launch_catch_fields)
  show ?thesis
    using same shown default unparsed null rejected launch_color_answer [of h st ph b s]
    by blast
qed

theorem launch_ignores_http_status_witness:
  "status_field (utf16 ''{\"status\":\"up\"}'') = Some (JStr (utf16 ''up''))
   \<and> truthy sample_host (Some (JStr (utf16 ''up'')))
   \<and> \<not> response_ok 500
   \<and> reply_text (launch sample_host (Answer 500 (utf16 ''Internal Server Error'')
         (utf16 ''{\"status\":\"up\"}'')) sample_page) = utf16 ''up''
   \<and> reply_color (launch sample_host (Answer 500 (utf16 ''Internal Server Error'')
         (utf16 ''{\"status\":\"up\"}'')) sample_page) \<noteq> error_color
   \<and> JSON_parse (utf16 ''ok'') = None
   \<and> reply_color (launch sample_host (Answer 500 (utf16 ''Internal Server Error'')
         (utf16 ''ok'')) sample_page) = error_color"
proof -
  have t: "truthy sample_host (Some (JStr (utf16 ''up'')))"
    by (simp add: utf16_def)
  have c: "to_string sample_host (JStr (utf16 ''up'')) = Inr (utf16 ''up'')"
    by simp
  show ?thesis
    using launch_ignores_http_status [of sample_host 500 "utf16 ''Internal Server Error''"
        "utf16 ''{\"status\":\"up\"}''" sample_page 500 "utf16 ''Internal Server Error''"
        "JsError [] []"]
      launch_ignores_http_status [of sample_host 500 "utf16 ''Internal Server Error''"
        "utf16 ''ok''" sample_page 500 "utf16 ''Internal Server Error''" "JsError [] []"]
      status_field_up t c parse_ok not_ok_500
    by blast
qed

section \<open>Theme toggle\<close>

lemma class_toggle_flips: "class_contains (class_toggle cs t) t = (\<not> class_contains cs t)"
  by (simp add: class_contains_def class_toggle_def)

lemma toggle_theme_body: "body_classes (toggle_theme s) = class_toggle (body_classes s) light"
  by (simp add: toggle_theme_def Let_def)

lemma toggle_theme_hero: "hero_classes (toggle_theme s) = class_toggle (hero_classes s) light"
  by (simp add: toggle_theme_def Let_def)

text \<open>
  C9.  One toggle flips the presence of the \<open>light\<close> class on the body and on the hero
  container; two toggles in succession bring the presence of \<open>light\<close> on the body back to
  what it was before the first.
\<close>

theorem toggle_theme_twice:
  "class_contains (body_classes (toggle_theme s)) light = (\<not> class_contains (body_classes s) light)
   \<and> class_contains (hero_classes (toggle_theme s)) light = (\<not> class_contains (hero_classes s) light)
   \<and> class_contains (body_classes (toggle_theme (toggle_theme s))) light
       = class_contains (body_classes s) light"
  by (simp add: toggle_theme_body toggle_theme_hero class_toggle_flips)

end
